theory Spec2Isabelle
  imports Complex_Main "HOL-Library.Char_ord" "HOL-Library.List_Lexorder"
begin

section \<open>The SDG 2 dashboard: data generation and derived metrics\<close>

text \<open>
  A shallow embedding of \<^verbatim>\<open>sdg2_app.py\<close>: the generator \<^verbatim>\<open>generate_sdg2_data\<close> and the
  derivations the views compute from its four tables (growth rates, progress deltas, radar
  values, rankings, pivots).

  Conventions of the model.
  \<^item> In the generator, the means, the radar values and the ranks a Python \<^verbatim>\<open>float\<close> is a
    \<^typ>\<open>real\<close> and the arithmetic is exact; the mean of an empty selection, \<^verbatim>\<open>nan\<close>, is
    \<open>None\<close>. The properties proved of them are bounds, orders and counts.
  \<^item> The growth rate is computed in \<^verbatim>\<open>float64\<close> as IEEE 754 defines it: every division,
    subtraction and multiplication is the exact result rounded to the nearest double, ties to
    even (\<open>rnd64\<close>), or an infinity when the exact result is beyond the range; \<^verbatim>\<open>inf\<close> and \<^verbatim>\<open>nan\<close>
    are values (\<open>Infinite\<close>, \<open>NaN\<close>). The power function of the C library is a parameter \<open>pw\<close>
    of the model: nothing is assumed of its accuracy.
  \<^item> The global generator of module \<^verbatim>\<open>random\<close> is a stream \<open>rs\<close> of unit draws (the results
    of \<^verbatim>\<open>random.random()\<close>) and a position in it; every call of \<^verbatim>\<open>random.uniform\<close> reads the
    draw at the position and advances it.
  \<^item> A raised exception is \<open>Inl e\<close>; a data frame is the list of its rows, in row order.
\<close>

subsection \<open>Errors, random draws, loops\<close>

text \<open>
  \<open>KeyError\<close>, \<open>IndexError\<close> and \<open>ValueError\<close> are the exceptions the source can raise (a
  dictionary lookup, \<^verbatim>\<open>.iloc[0]\<close>, \<^verbatim>\<open>DataFrame.pivot\<close>). \<open>InsufficientDataError\<close> and
  \<open>MissingKeyError\<close> are the names of the specification's error taxonomy; no statement of the
  source constructs them.
\<close>

datatype error = KeyError | IndexError | ValueError | InsufficientDataError | MissingKeyError

definition uniform :: "(nat \<Rightarrow> real) \<Rightarrow> real \<Rightarrow> real \<Rightarrow> nat \<Rightarrow> real \<times> nat" where
  \<comment> \<open>\<^verbatim>\<open>random.uniform(a, b)\<close> is \<^verbatim>\<open>a + (b - a) * self.random()\<close>.\<close>
  "uniform rs a b n = (a + (b - a) * rs n, Suc n)"

definition unit_draws :: "(nat \<Rightarrow> real) \<Rightarrow> bool" where
  \<comment> \<open>\<^verbatim>\<open>random.random()\<close> returns a float in the half-open interval from 0 to 1.\<close>
  "unit_draws rs = (\<forall>n. 0 \<le> rs n \<and> rs n < 1)"

definition dict_get :: "('k \<times> 'v) list \<Rightarrow> 'k \<Rightarrow> error + 'v" where
  \<comment> \<open>\<^verbatim>\<open>d[k]\<close> on a dictionary literal.\<close>
  "dict_get d k = (case map_of d k of None \<Rightarrow> Inl KeyError | Some v \<Rightarrow> Inr v)"

fun for_loop :: "'a list \<Rightarrow> ('a \<Rightarrow> nat \<Rightarrow> error + ('b list \<times> nat)) \<Rightarrow> nat \<Rightarrow> error + ('b list \<times> nat)" where
  \<comment> \<open>\<^verbatim>\<open>for x in xs: body\<close>, where the body appends rows to a table and draws random numbers;
      an exception in the body leaves the loop.\<close>
  "for_loop [] body n = Inr ([], n)"
| "for_loop (x # xs) body n =
     (case body x n of
        Inl e \<Rightarrow> Inl e
      | Inr (out, n1) \<Rightarrow>
          (case for_loop xs body n1 of
             Inl e \<Rightarrow> Inl e
           | Inr (rest, n2) \<Rightarrow> Inr (out @ rest, n2)))"

subsection \<open>The four tables\<close>

record undernourishment_row =
  u_Year :: int
  u_Region :: string
  Undernourishment_Rate :: real

record production_row =
  p_Year :: int
  Crop :: string
  Production :: real
  Unit :: string

record security_row =
  s_Year :: int
  Country :: string
  Food_Security_Level :: real
  Population_Affected :: real

record nutrition_row =
  n_Year :: int
  n_Region :: string
  Indicator :: string
  Rate :: real

definition years :: "int list" where
  \<comment> \<open>\<^verbatim>\<open>list(range(2015, 2024))\<close>\<close>
  "years = [2015..2023]"

definition regions :: "string list" where
  "regions = [''Sub-Saharan Africa'', ''Asia'', ''Latin America'', ''North America'',
              ''Europe'', ''Oceania'']"

definition crops :: "string list" where
  "crops = [''Cereals'', ''Fruits'', ''Vegetables'', ''Meat'', ''Dairy'', ''Fish'']"

definition countries :: "string list" where
  "countries = [''Kenya'', ''India'', ''Brazil'', ''Nigeria'', ''Bangladesh'', ''Ethiopia'',
                ''Tanzania'', ''Pakistan'', ''Afghanistan'', ''Madagascar'']"

definition indicators :: "string list" where
  "indicators = [''Stunting'', ''Wasting'', ''Overweight'']"

definition base_rate :: "(string \<times> real) list" where
  "base_rate = [(''Sub-Saharan Africa'', 25), (''Asia'', 12), (''Latin America'', 8),
                (''North America'', 3), (''Europe'', 2), (''Oceania'', 4)]"

definition base_rates :: "(string \<times> (string \<times> real) list) list" where
  "base_rates =
     [(''Stunting'', [(''Sub-Saharan Africa'', 35), (''Asia'', 25), (''Latin America'', 15),
                      (''North America'', 5), (''Europe'', 3), (''Oceania'', 8)]),
      (''Wasting'', [(''Sub-Saharan Africa'', 8), (''Asia'', 12), (''Latin America'', 4),
                     (''North America'', 2), (''Europe'', 1), (''Oceania'', 3)]),
      (''Overweight'', [(''Sub-Saharan Africa'', 5), (''Asia'', 8), (''Latin America'', 12),
                        (''North America'', 15), (''Europe'', 13), (''Oceania'', 18)])]"

definition und_year :: "(nat \<Rightarrow> real) \<Rightarrow> string \<Rightarrow> int \<Rightarrow> nat \<Rightarrow> error + (undernourishment_row list \<times> nat)" where
  "und_year rs region year n =
     (let trend = - (1 / 2) * real_of_int (year - 2015);
          (noise, n1) = uniform rs (- 1) 1 n
      in case dict_get base_rate region of
           Inl e \<Rightarrow> Inl e
         | Inr b \<Rightarrow>
             Inr ([\<lparr>u_Year = year, u_Region = region,
                     Undernourishment_Rate = max 0 (b + trend + noise)\<rparr>], n1))"

definition und_region :: "(nat \<Rightarrow> real) \<Rightarrow> string \<Rightarrow> nat \<Rightarrow> error + (undernourishment_row list \<times> nat)" where
  "und_region rs region n = for_loop years (und_year rs region) n"

definition prod_year :: "(nat \<Rightarrow> real) \<Rightarrow> string \<Rightarrow> real \<Rightarrow> int \<Rightarrow> nat \<Rightarrow> error + (production_row list \<times> nat)" where
  "prod_year rs crop base_production year n =
     (let growth = (102 / 100) powi (year - 2015);
          (noise, n1) = uniform rs (95 / 100) (105 / 100) n;
          production = base_production * growth * noise
      in Inr ([\<lparr>p_Year = year, Crop = crop, Production = production,
                 Unit = ''Million Tonnes''\<rparr>], n1))"

definition prod_crop :: "(nat \<Rightarrow> real) \<Rightarrow> string \<Rightarrow> nat \<Rightarrow> error + (production_row list \<times> nat)" where
  "prod_crop rs crop n =
     (let (base_production, n1) = uniform rs 100 500 n
      in for_loop years (prod_year rs crop base_production) n1)"

definition sec_year :: "(nat \<Rightarrow> real) \<Rightarrow> string \<Rightarrow> int \<Rightarrow> nat \<Rightarrow> error + (security_row list \<times> nat)" where
  "sec_year rs country year n =
     (let (base_level, n1) = uniform rs (15 / 10) (35 / 10) n;
          trend = - (5 / 100) * real_of_int (year - 2015);
          (noise, n2) = uniform rs (- (2 / 10)) (2 / 10) n1;
          level = max 1 (min 4 (base_level + trend + noise));
          (affected, n3) = uniform rs 5 40 n2
      in Inr ([\<lparr>s_Year = year, Country = country, Food_Security_Level = level,
                 Population_Affected = affected\<rparr>], n3))"

definition sec_country :: "(nat \<Rightarrow> real) \<Rightarrow> string \<Rightarrow> nat \<Rightarrow> error + (security_row list \<times> nat)" where
  "sec_country rs country n = for_loop years (sec_year rs country) n"

definition nut_year :: "(nat \<Rightarrow> real) \<Rightarrow> string \<Rightarrow> string \<Rightarrow> int \<Rightarrow> nat \<Rightarrow> error + (nutrition_row list \<times> nat)" where
  "nut_year rs region indicator year n =
     (let trend_direction = (if indicator \<noteq> ''Overweight'' then - (3 / 10) else 2 / 10);
          trend = trend_direction * real_of_int (year - 2015);
          (noise, n1) = uniform rs (- (1 / 2)) (1 / 2) n
      in case dict_get base_rates indicator of
           Inl e \<Rightarrow> Inl e
         | Inr d \<Rightarrow>
             (case dict_get d region of
                Inl e \<Rightarrow> Inl e
              | Inr b \<Rightarrow>
                  Inr ([\<lparr>n_Year = year, n_Region = region, Indicator = indicator,
                          Rate = max 0 (b + trend + noise)\<rparr>], n1)))"

definition nut_indicator :: "(nat \<Rightarrow> real) \<Rightarrow> string \<Rightarrow> string \<Rightarrow> nat \<Rightarrow> error + (nutrition_row list \<times> nat)" where
  "nut_indicator rs region indicator n = for_loop years (nut_year rs region indicator) n"

definition nut_region :: "(nat \<Rightarrow> real) \<Rightarrow> string \<Rightarrow> nat \<Rightarrow> error + (nutrition_row list \<times> nat)" where
  "nut_region rs region n = for_loop indicators (nut_indicator rs region) n"

definition generate_sdg2_data ::
  "(nat \<Rightarrow> real) \<Rightarrow>
   error + (undernourishment_row list \<times> production_row list \<times> security_row list \<times> nutrition_row list)" where
  "generate_sdg2_data rs =
     (case for_loop regions (und_region rs) 0 of
        Inl e \<Rightarrow> Inl e
      | Inr (undernourishment_data, n1) \<Rightarrow>
     (case for_loop crops (prod_crop rs) n1 of
        Inl e \<Rightarrow> Inl e
      | Inr (food_production_data, n2) \<Rightarrow>
     (case for_loop countries (sec_country rs) n2 of
        Inl e \<Rightarrow> Inl e
      | Inr (food_security_data, n3) \<Rightarrow>
     (case for_loop regions (nut_region rs) n3 of
        Inl e \<Rightarrow> Inl e
      | Inr (nutrition_data, n4) \<Rightarrow>
          Inr (undernourishment_data, food_production_data, food_security_data,
               nutrition_data)))))"

subsection \<open>Keys of the tables\<close>

definition cross :: "'a list \<Rightarrow> 'b list \<Rightarrow> ('a \<times> 'b) list" where
  "cross ys xs = concat (map (\<lambda>x. map (\<lambda>y. (y, x)) ys) xs)"

definition und_key :: "undernourishment_row \<Rightarrow> int \<times> string" where
  "und_key r = (u_Year r, u_Region r)"

definition prod_key :: "production_row \<Rightarrow> int \<times> string" where
  "prod_key r = (p_Year r, Crop r)"

definition sec_key :: "security_row \<Rightarrow> int \<times> string" where
  "sec_key r = (s_Year r, Country r)"

definition nut_key :: "nutrition_row \<Rightarrow> int \<times> string \<times> string" where
  "nut_key r = (n_Year r, n_Region r, Indicator r)"

definition sec_bounds :: "(nat \<Rightarrow> real) \<Rightarrow> security_row \<Rightarrow> bool" where
  "sec_bounds rs r =
     (1 \<le> Food_Security_Level r \<and> Food_Security_Level r \<le> 4 \<and>
      (unit_draws rs \<longrightarrow>
         Food_Security_Level r \<le> 37 / 10 \<and>
         5 \<le> Population_Affected r \<and> Population_Affected r \<le> 40))"

definition nut_bounds :: "(nat \<Rightarrow> real) \<Rightarrow> nutrition_row \<Rightarrow> bool" where
  "nut_bounds rs r =
     (0 \<le> Rate r \<and> (unit_draws rs \<longrightarrow> Indicator r = ''Stunting'' \<longrightarrow> Rate r \<le> 71 / 2))"

definition cross3 :: "'a list \<Rightarrow> 'b list \<Rightarrow> 'c list \<Rightarrow> ('a \<times> 'b \<times> 'c) list" where
  "cross3 ys xs zs = concat (map (\<lambda>x. concat (map (\<lambda>z. map (\<lambda>y. (y, x, z)) ys) zs)) xs)"

subsection \<open>Derived metrics: the pandas operations the views use\<close>

definition iloc0 :: "'a list \<Rightarrow> error + 'a" where
  \<comment> \<open>\<^verbatim>\<open>series.iloc[0]\<close>: the first value, IndexError on an empty selection.\<close>
  "iloc0 xs = (case xs of [] \<Rightarrow> Inl IndexError | x # _ \<Rightarrow> Inr x)"

fun unique :: "'a list \<Rightarrow> 'a list" where
  \<comment> \<open>\<^verbatim>\<open>series.unique()\<close>: the distinct values in order of first appearance.\<close>
  "unique [] = []"
| "unique (x # xs) = x # unique (filter (\<lambda>y. y \<noteq> x) xs)"




definition rank_avg :: "real list \<Rightarrow> real \<Rightarrow> real" where
  \<comment> \<open>\<^verbatim>\<open>series.rank()\<close> with its default method, average: a value's rank is the mean of the
      positions its group of equal values takes in ascending order.\<close>
  "rank_avg xs v =
     real (length (filter (\<lambda>x. x < v) xs)) + (real (length (filter (\<lambda>x. x = v) xs)) + 1) / 2"

definition pivot ::
  "('r::linorder \<times> 'c::linorder \<times> 'v) list \<Rightarrow> error + ('r list \<times> 'c list \<times> 'v option list list)" where
  \<comment> \<open>\<^verbatim>\<open>df.pivot(index, columns, values)\<close> on the rows as (index, column, value) triples:
      ValueError when an (index, column) pair occurs twice; otherwise the sorted index and
      column labels and the matrix, a cell that no row fills being \<^verbatim>\<open>nan\<close> (\<open>None\<close>).\<close>
  "pivot t =
     (let keys = map (\<lambda>(r, c, v). (r, c)) t
      in if \<not> distinct keys then Inl ValueError
         else
           (let idx = sort (remdups (map fst keys));
                cols = sort (remdups (map snd keys))
            in Inr (idx, cols,
                 map (\<lambda>r. map (\<lambda>c. map_of (map (\<lambda>(r, c, v). ((r, c), v)) t) (r, c)) cols) idx)))"

subsection \<open>Food Production view: annual growth rate\<close>

text \<open>
  The values of \<^verbatim>\<open>numpy.float64\<close>: a finite double, an infinity (of either sign) or \<^verbatim>\<open>nan\<close>.
\<close>

datatype npfloat = Finite real | Infinite | NaN

definition round_half_even :: "real \<Rightarrow> int" where
  \<comment> \<open>The nearest integer, a tie going to the even one.\<close>
  "round_half_even t =
     (let f = \<lfloor>t\<rfloor>
      in if t - of_int f < 1 / 2 then f
         else if 1 / 2 < t - of_int f then f + 1
         else if even f then f else f + 1)"

definition ulp_exponent :: "real \<Rightarrow> int" where
  \<comment> \<open>The exponent of the last place of the doubles around \<open>x\<close>: 53 significant bits, and
      \<open>2 powi (- 1074)\<close> the spacing of the subnormal numbers.\<close>
  "ulp_exponent x = max (\<lfloor>log 2 \<bar>x\<bar>\<rfloor> - 52) (- 1074)"

definition rnd64 :: "real \<Rightarrow> real" where
  \<comment> \<open>Rounding to the nearest double, ties to even, below the overflow threshold.\<close>
  "rnd64 x =
     (if x = 0 then 0
      else of_int (round_half_even (x / 2 powi ulp_exponent x)) * 2 powi ulp_exponent x)"

definition overflow_threshold :: real where
  \<comment> \<open>Half way between the largest double and \<open>2 ^ 1024\<close>: from here on rounding gives \<^verbatim>\<open>inf\<close>.\<close>
  "overflow_threshold = 2 ^ 1024 - 2 ^ 970"

definition fl :: "real \<Rightarrow> npfloat" where
  \<comment> \<open>The double an operation returns whose exact result is \<open>x\<close>.\<close>
  "fl x = (if overflow_threshold \<le> \<bar>x\<bar> then Infinite else Finite (rnd64 x))"

definition np_div :: "npfloat \<Rightarrow> npfloat \<Rightarrow> npfloat" where
  \<comment> \<open>Division of two \<^verbatim>\<open>numpy.float64\<close>: by zero it gives \<^verbatim>\<open>inf\<close> or \<^verbatim>\<open>nan\<close> and a warning,
      never an exception.\<close>
  "np_div x y =
     (case x of
        NaN \<Rightarrow> NaN
      | Infinite \<Rightarrow> (case y of Finite b \<Rightarrow> Infinite | Infinite \<Rightarrow> NaN | NaN \<Rightarrow> NaN)
      | Finite a \<Rightarrow>
          (case y of
             NaN \<Rightarrow> NaN
           | Infinite \<Rightarrow> Finite 0
           | Finite b \<Rightarrow>
               if b = 0 then (if a = 0 then NaN else Infinite) else fl (a / b)))"

definition np_pow :: "(real \<Rightarrow> real \<Rightarrow> real) \<Rightarrow> npfloat \<Rightarrow> real \<Rightarrow> npfloat" where
  \<comment> \<open>\<^verbatim>\<open>x ** y\<close> for a positive exponent that is not an integer (\<^verbatim>\<open>1/8\<close> at its only use):
      \<^verbatim>\<open>nan\<close> for a negative base, \<^verbatim>\<open>inf\<close> for an infinite one, and otherwise the double
      \<open>pw a y\<close> that the library's power function returns.\<close>
  "np_pow pw x y =
     (case x of
        NaN \<Rightarrow> NaN
      | Infinite \<Rightarrow> Infinite
      | Finite a \<Rightarrow> if a < 0 then NaN else Finite (pw a y))"

definition np_sub :: "npfloat \<Rightarrow> real \<Rightarrow> npfloat" where
  \<comment> \<open>\<^verbatim>\<open>x - c\<close> for a finite constant \<open>c\<close>.\<close>
  "np_sub x c = (case x of NaN \<Rightarrow> NaN | Infinite \<Rightarrow> Infinite | Finite a \<Rightarrow> fl (a - c))"

definition np_mul :: "npfloat \<Rightarrow> real \<Rightarrow> npfloat" where
  \<comment> \<open>\<^verbatim>\<open>x * c\<close> for a finite constant \<open>c\<close>.\<close>
  "np_mul x c =
     (case x of
        NaN \<Rightarrow> NaN
      | Infinite \<Rightarrow> if c = 0 then NaN else Infinite
      | Finite a \<Rightarrow> fl (a * c))"

definition growth_of :: "(real \<Rightarrow> real \<Rightarrow> real) \<Rightarrow> npfloat \<Rightarrow> npfloat \<Rightarrow> npfloat" where
  \<comment> \<open>\<^verbatim>\<open>((last_year / first_year) ** (1/8) - 1) * 100\<close>\<close>
  "growth_of pw first_year last_year =
     np_mul (np_sub (np_pow pw (np_div last_year first_year) (1 / 8)) 1) 100"

record growth_row =
  g_Crop :: string
  Growth_Rate :: npfloat

definition growth_rate_row ::
  "(real \<Rightarrow> real \<Rightarrow> real) \<Rightarrow> production_row list \<Rightarrow> string \<Rightarrow> error + growth_row" where
  \<comment> \<open>The body of the loop over the crops.\<close>
  "growth_rate_row pw production_df crop =
     (let crop_data = filter (\<lambda>r. Crop r = crop) production_df
      in case iloc0 (map Production (filter (\<lambda>r. p_Year r = 2015) crop_data)) of
           Inl e \<Rightarrow> Inl e
         | Inr first_year \<Rightarrow>
             (case iloc0 (map Production (filter (\<lambda>r. p_Year r = 2023) crop_data)) of
                Inl e \<Rightarrow> Inl e
              | Inr last_year \<Rightarrow>
                  (let growth_rate = growth_of pw (Finite first_year) (Finite last_year)
                   in Inr \<lparr>g_Crop = crop, Growth_Rate = growth_rate\<rparr>)))"

fun growth_loop ::
  "(real \<Rightarrow> real \<Rightarrow> real) \<Rightarrow> production_row list \<Rightarrow> string list \<Rightarrow> error + growth_row list" where
  "growth_loop pw production_df [] = Inr []"
| "growth_loop pw production_df (crop # cs) =
     (case growth_rate_row pw production_df crop of
        Inl e \<Rightarrow> Inl e
      | Inr row \<Rightarrow>
          (case growth_loop pw production_df cs of
             Inl e \<Rightarrow> Inl e
           | Inr rest \<Rightarrow> Inr (row # rest)))"

definition growth_rates ::
  "(real \<Rightarrow> real \<Rightarrow> real) \<Rightarrow> production_row list \<Rightarrow> error + growth_row list" where
  "growth_rates pw production_df =
     growth_loop pw production_df (unique (map Crop production_df))"

definition scale_value :: "real \<Rightarrow> real \<Rightarrow> npfloat" where
  \<comment> \<open>A production value multiplied by \<open>k\<close> in \<^verbatim>\<open>float64\<close>.\<close>
  "scale_value k v = np_mul (Finite v) k"

definition scale_crop :: "real \<Rightarrow> string \<Rightarrow> production_row list \<Rightarrow> production_row list" where
  \<comment> \<open>The table that holds, for one crop, \<open>k\<close> times each production value: what multiplying
      the column by \<open>k\<close> in \<^verbatim>\<open>float64\<close> gives when every product is exact.\<close>
  "scale_crop k crop production_df =
     map (\<lambda>r. if Crop r = crop then r\<lparr>Production := k * Production r\<rparr> else r) production_df"

fun scale_rows :: "real \<Rightarrow> string \<Rightarrow> production_row list \<Rightarrow> production_row list option" where
  \<comment> \<open>The table after the production values of one crop are multiplied by \<open>k\<close> in
      \<^verbatim>\<open>float64\<close>; \<open>None\<close> when a product is \<^verbatim>\<open>inf\<close>, which no row of the model holds.\<close>
  "scale_rows k crop [] = Some []"
| "scale_rows k crop (r # rs) =
     (if Crop r = crop
      then (case scale_value k (Production r) of
              Finite p \<Rightarrow> map_option ((#) (r\<lparr>Production := p\<rparr>)) (scale_rows k crop rs)
            | Infinite \<Rightarrow> None
            | NaN \<Rightarrow> None)
      else map_option ((#) r) (scale_rows k crop rs))"

subsection \<open>Nutrition Status view: progress tracking\<close>




subsection \<open>Regional Comparison view: radar values and ranking\<close>



record ranking_row =
  rk_Year :: int
  rk_Region :: string
  rk_Undernourishment_Rate :: real
  Undernourishment_Rank :: real
  Stunting_Rank :: real
  Overall_Score :: real

definition merge_rank ::
  "(undernourishment_row \<times> real) list \<Rightarrow> (string \<times> real) list \<Rightarrow> ranking_row list" where
  \<comment> \<open>\<^verbatim>\<open>ranking_data.merge(stunting_ranks, on='Region')\<close>, an inner join in the order of the
      left rows, with the column \<^verbatim>\<open>Overall_Score\<close> added.\<close>
  "merge_rank ranking_data stunting_ranks =
     concat (map (\<lambda>(u, ur).
        map (\<lambda>(reg, sr).
               \<lparr>rk_Year = u_Year u, rk_Region = u_Region u,
                rk_Undernourishment_Rate = Undernourishment_Rate u,
                Undernourishment_Rank = ur, Stunting_Rank = sr,
                Overall_Score = (ur + sr) / 2\<rparr>)
          (filter (\<lambda>(reg, sr). reg = u_Region u) stunting_ranks)) ranking_data)"

definition final_ranking ::
  "undernourishment_row list \<Rightarrow> nutrition_row list \<Rightarrow> int \<Rightarrow> ranking_row list" where
  \<comment> \<open>\<^verbatim>\<open>sort_values\<close> is modelled by a stable sort; pandas' default quicksort leaves the order
      of rows with equal scores open.\<close>
  "final_ranking undernourishment_df nutrition_df selected_year =
     (let year_undernourishment = filter (\<lambda>r. u_Year r = selected_year) undernourishment_df;
          year_nutrition = filter (\<lambda>r. n_Year r = selected_year) nutrition_df;
          urates = map Undernourishment_Rate year_undernourishment;
          ranking_data =
            map (\<lambda>r. (r, rank_avg urates (Undernourishment_Rate r))) year_undernourishment;
          stunting = filter (\<lambda>r. Indicator r = ''Stunting'') year_nutrition;
          srates = map Rate stunting;
          stunting_ranks = map (\<lambda>r. (n_Region r, rank_avg srates (Rate r))) stunting
      in sort_key Overall_Score (merge_rank ranking_data stunting_ranks))"

subsection \<open>Hunger and Nutrition views: the heatmap pivots\<close>

definition pivot_data ::
  "undernourishment_row list \<Rightarrow> error + (string list \<times> int list \<times> real option list list)" where
  \<comment> \<open>\<^verbatim>\<open>undernourishment_df.pivot(index='Region', columns='Year', values='Undernourishment_Rate')\<close>\<close>
  "pivot_data undernourishment_df =
     pivot (map (\<lambda>r. (u_Region r, u_Year r, Undernourishment_Rate r)) undernourishment_df)"

definition nutrition_pivot ::
  "nutrition_row list \<Rightarrow> error + (string list \<times> string list \<times> real option list list)" where
  \<comment> \<open>\<^verbatim>\<open>latest_nutrition.pivot(index='Region', columns='Indicator', values='Rate')\<close> on the
      rows of 2023.\<close>
  "nutrition_pivot nutrition_df =
     pivot (map (\<lambda>r. (n_Region r, Indicator r, Rate r))
              (filter (\<lambda>r. n_Year r = 2023) nutrition_df))"

section \<open>Properties\<close>

subsection \<open>The generator\<close>

lemma set_cross: "set (cross ys xs) = set ys \<times> set xs"
  by (auto simp: cross_def)

lemma length_cross: "length (cross ys xs) = length xs * length ys"
  by (induction xs) (simp_all add: cross_def)

lemma distinct_cross: "distinct ys \<Longrightarrow> distinct xs \<Longrightarrow> distinct (cross ys xs)"
proof (induction xs)
  case Nil
  then show ?case by (simp add: cross_def)
next
  case (Cons x xs)
  have "distinct (map (\<lambda>y. (y, x)) ys)"
    using Cons.prems(1) by (simp add: distinct_map inj_on_def)
  moreover have "distinct (cross ys xs)"
    using Cons by simp
  moreover have "set (map (\<lambda>y. (y, x)) ys) \<inter> set (cross ys xs) = {}"
    using Cons.prems(2) by (auto simp: set_cross)
  ultimately show ?case
    by (simp add: cross_def)
qed

lemma for_loop_rows:
  assumes "\<And>x n. x \<in> set xs \<Longrightarrow>
             \<exists>out n'. body x n = Inr (out, n') \<and> map key out = g x \<and> (\<forall>r\<in>set out. P r)"
  shows "\<exists>outs n'. for_loop xs body n = Inr (outs, n') \<and> map key outs = concat (map g xs) \<and>
           (\<forall>r\<in>set outs. P r)"
  using assms
proof (induction xs arbitrary: n)
  case Nil
  then show ?case by simp
next
  case (Cons x xs)
  from Cons.prems [of x n] obtain out n1 where
    b: "body x n = Inr (out, n1)" "map key out = g x" "\<forall>r\<in>set out. P r"
    by auto
  from Cons.IH [of n1] Cons.prems obtain rest n2 where
    r: "for_loop xs body n1 = Inr (rest, n2)" "map key rest = concat (map g xs)"
       "\<forall>r\<in>set rest. P r"
    by auto
  from b r show ?case by auto
qed

lemma years_set: "set years = {2015..2023}"
  unfolding years_def by (rule set_upto)

lemma base_rate_lookup:
  assumes "region \<in> set regions"
  shows "\<exists>b. dict_get base_rate region = Inr b \<and> b \<le> 25"
  using assms by (auto simp: regions_def dict_get_def base_rate_def)

lemma und_year_row:
  assumes "region \<in> set regions" and "year \<in> set years"
  shows "\<exists>out n'. und_year rs region year n = Inr (out, n') \<and>
           map und_key out = [(year, region)] \<and>
           (\<forall>r\<in>set out. 0 \<le> Undernourishment_Rate r \<and>
              (unit_draws rs \<longrightarrow> Undernourishment_Rate r \<le> 26))"
proof -
  from base_rate_lookup [OF assms(1)] obtain b where
    b: "dict_get base_rate region = Inr b" "b \<le> 25"
    by blast
  have y: "2015 \<le> year"
    using assms(2) by (simp add: years_set)
  have core: "\<And>t u::real. 0 \<le> t \<Longrightarrow> u < 1 \<Longrightarrow> b + - (1 / 2) * t + (- 1 + (1 - - 1) * u) \<le> 26"
    using b(2) by simp
  have "unit_draws rs \<Longrightarrow> b + - (1 / 2) * real_of_int (year - 2015) + (- 1 + (1 - - 1) * rs n) \<le> 26"
  proof (rule core)
    show "0 \<le> real_of_int (year - 2015)" using y by simp
    show "unit_draws rs \<Longrightarrow> rs n < 1" by (simp add: unit_draws_def)
  qed
  then show ?thesis
    using b(1) by (simp add: und_year_def uniform_def und_key_def)
qed

lemma und_region_rows:
  assumes "region \<in> set regions"
  shows "\<exists>out n'. und_region rs region n = Inr (out, n') \<and>
           map und_key out = concat (map (\<lambda>y. [(y, region)]) years) \<and>
           (\<forall>r\<in>set out. 0 \<le> Undernourishment_Rate r \<and>
              (unit_draws rs \<longrightarrow> Undernourishment_Rate r \<le> 26))"
  unfolding und_region_def
  using und_year_row [OF assms]
  by (rule for_loop_rows [where key = und_key and g = "\<lambda>y. [(y, region)]"
        and P = "\<lambda>r. 0 \<le> Undernourishment_Rate r \<and>
              (unit_draws rs \<longrightarrow> Undernourishment_Rate r \<le> 26)"])

lemma concat_singletons: "concat (map (\<lambda>y. [f y]) ys) = map f ys"
  by (induction ys) simp_all

lemma und_table_rows:
  "\<exists>out n'. for_loop regions (und_region rs) n = Inr (out, n') \<and>
     map und_key out = cross years regions \<and>
     (\<forall>r\<in>set out. 0 \<le> Undernourishment_Rate r \<and>
        (unit_draws rs \<longrightarrow> Undernourishment_Rate r \<le> 26))"
  unfolding cross_def
  using und_region_rows [unfolded concat_singletons]
  by (rule for_loop_rows [where key = und_key and g = "\<lambda>x. map (\<lambda>y. (y, x)) years"
        and P = "\<lambda>r. 0 \<le> Undernourishment_Rate r \<and>
              (unit_draws rs \<longrightarrow> Undernourishment_Rate r \<le> 26)"])

lemma prod_year_row:
  assumes "year \<in> set years" and "unit_draws rs \<longrightarrow> 0 < base"
  shows "\<exists>out n'. prod_year rs crop base year n = Inr (out, n') \<and>
           map prod_key out = [(year, crop)] \<and>
           (\<forall>r\<in>set out. unit_draws rs \<longrightarrow> 0 < Production r)"
proof -
  have g: "0 < (102 / 100 :: real) powi (year - 2015)"
    by (rule zero_less_power_int) simp
  have "0 < base * (102 / 100) powi (year - 2015) * (95 / 100 + (105 / 100 - 95 / 100) * rs n)"
    if u: "unit_draws rs"
  proof -
    from u have "0 \<le> rs n" by (simp add: unit_draws_def)
    then have "0 < 95 / 100 + (105 / 100 - 95 / 100) * rs n"
      by (simp add: add_pos_nonneg)
    moreover from u assms(2) have "0 < base" by simp
    ultimately show ?thesis using g by simp
  qed
  then show ?thesis
    by (simp add: prod_year_def uniform_def prod_key_def)
qed

lemma prod_crop_rows:
  "\<exists>out n'. prod_crop rs crop n = Inr (out, n') \<and>
     map prod_key out = map (\<lambda>y. (y, crop)) years \<and>
     (\<forall>r\<in>set out. unit_draws rs \<longrightarrow> 0 < Production r)"
proof -
  have b: "unit_draws rs \<longrightarrow> 0 < 100 + (500 - 100) * rs n"
    by (simp add: unit_draws_def add_pos_nonneg)
  have "\<exists>out n'. for_loop years (prod_year rs crop (100 + (500 - 100) * rs n)) (Suc n) = Inr (out, n') \<and>
     map prod_key out = concat (map (\<lambda>y. [(y, crop)]) years) \<and>
     (\<forall>r\<in>set out. unit_draws rs \<longrightarrow> 0 < Production r)"
    using prod_year_row [OF _ b]
    by (rule for_loop_rows [where key = prod_key and g = "\<lambda>y. [(y, crop)]"
          and P = "\<lambda>r. unit_draws rs \<longrightarrow> 0 < Production r"])
  then show ?thesis
    by (simp add: prod_crop_def uniform_def concat_singletons)
qed

lemma prod_table_rows:
  "\<exists>out n'. for_loop crops (prod_crop rs) n = Inr (out, n') \<and>
     map prod_key out = cross years crops \<and>
     (\<forall>r\<in>set out. unit_draws rs \<longrightarrow> 0 < Production r)"
  unfolding cross_def
  using prod_crop_rows
  by (rule for_loop_rows [where key = prod_key and g = "\<lambda>x. map (\<lambda>y. (y, x)) years"
        and P = "\<lambda>r. unit_draws rs \<longrightarrow> 0 < Production r"])

lemma sec_year_row:
  assumes "year \<in> set years"
  shows "\<exists>out n'. sec_year rs country year n = Inr (out, n') \<and>
           map sec_key out = [(year, country)] \<and> (\<forall>r\<in>set out. sec_bounds rs r)"
proof -
  have y: "0 \<le> real_of_int (year - 2015)"
    using assms by (simp add: years_set)
  have core: "\<And>t u v::real. 0 \<le> t \<Longrightarrow> u < 1 \<Longrightarrow> v < 1 \<Longrightarrow>
     15 / 10 + (35 / 10 - 15 / 10) * u + - (5 / 100) * t + (- (2 / 10) + (2 / 10 - - (2 / 10)) * v)
       \<le> 37 / 10"
    by simp
  have lvl: "unit_draws rs \<Longrightarrow>
     15 / 10 + (35 / 10 - 15 / 10) * rs n + - (5 / 100) * real_of_int (year - 2015) +
       (- (2 / 10) + (2 / 10 - - (2 / 10)) * rs (Suc n)) \<le> 37 / 10"
    by (rule core [OF y]) (simp_all add: unit_draws_def)
  have pop: "unit_draws rs \<Longrightarrow>
     5 \<le> 5 + (40 - 5) * rs (Suc (Suc n)) \<and> 5 + (40 - 5) * rs (Suc (Suc n)) \<le> 40"
  proof -
    assume "unit_draws rs"
    then have "0 \<le> rs (Suc (Suc n))" "rs (Suc (Suc n)) < 1"
      by (simp_all add: unit_draws_def)
    then show ?thesis by simp
  qed
  define x where "x = 15 / 10 + (35 / 10 - 15 / 10) * rs n + - (5 / 100) * real_of_int (year - 2015) +
       (- (2 / 10) + (2 / 10 - - (2 / 10)) * rs (Suc n))"
  define p where "p = 5 + (40 - 5) * rs (Suc (Suc n))"
  have run: "sec_year rs country year n =
     Inr ([\<lparr>s_Year = year, Country = country, Food_Security_Level = max 1 (min 4 x),
             Population_Affected = p\<rparr>], Suc (Suc (Suc n)))"
    unfolding x_def p_def by (simp add: sec_year_def uniform_def)
  have "sec_bounds rs \<lparr>s_Year = year, Country = country, Food_Security_Level = max 1 (min 4 x),
             Population_Affected = p\<rparr>"
    using lvl pop unfolding x_def [symmetric] p_def [symmetric]
    by (auto simp: sec_bounds_def)
  then show ?thesis
    unfolding run by (simp add: sec_key_def)
qed

lemma sec_table_rows:
  "\<exists>out n'. for_loop countries (sec_country rs) n = Inr (out, n') \<and>
     map sec_key out = cross years countries \<and> (\<forall>r\<in>set out. sec_bounds rs r)"
proof -
  have inner: "\<exists>out n'. sec_country rs country n = Inr (out, n') \<and>
      map sec_key out = map (\<lambda>y. (y, country)) years \<and> (\<forall>r\<in>set out. sec_bounds rs r)"
    for country n
    unfolding sec_country_def
    using for_loop_rows [where key = sec_key and g = "\<lambda>y. [(y, country)]"
          and P = "sec_bounds rs", OF sec_year_row]
    by (simp only: concat_singletons)
  show ?thesis
    unfolding cross_def
    using inner
    by (rule for_loop_rows [where key = sec_key and g = "\<lambda>x. map (\<lambda>y. (y, x)) years"
          and P = "sec_bounds rs"])
qed

lemma base_rates_lookup:
  assumes "indicator \<in> set indicators" and "region \<in> set regions"
  shows "\<exists>d b. dict_get base_rates indicator = Inr d \<and> dict_get d region = Inr b \<and>
           (indicator = ''Stunting'' \<longrightarrow> b \<le> 35)"
  using assms by (auto simp: indicators_def regions_def dict_get_def base_rates_def)

lemma nut_year_row:
  assumes "region \<in> set regions" and "indicator \<in> set indicators" and "year \<in> set years"
  shows "\<exists>out n'. nut_year rs region indicator year n = Inr (out, n') \<and>
           map nut_key out = [(year, region, indicator)] \<and> (\<forall>r\<in>set out. nut_bounds rs r)"
proof -
  from base_rates_lookup [OF assms(2) assms(1)] obtain d b where
    d: "dict_get base_rates indicator = Inr d" and b: "dict_get d region = Inr b"
    and s: "indicator = ''Stunting'' \<longrightarrow> b \<le> 35"
    by blast
  have y: "0 \<le> real_of_int (year - 2015)"
    using assms(3) by (simp add: years_set)
  define x where "x = b + (if indicator \<noteq> ''Overweight'' then - (3 / 10) else 2 / 10) *
      real_of_int (year - 2015) + (- (1 / 2) + (1 / 2 - - (1 / 2)) * rs n)"
  have run: "nut_year rs region indicator year n =
     Inr ([\<lparr>n_Year = year, n_Region = region, Indicator = indicator, Rate = max 0 x\<rparr>], Suc n)"
    unfolding x_def using d b by (simp add: nut_year_def uniform_def)
  have core: "\<And>t u::real. 0 \<le> t \<Longrightarrow> u < 1 \<Longrightarrow> b \<le> 35 \<Longrightarrow>
      b + - (3 / 10) * t + (- (1 / 2) + (1 / 2 - - (1 / 2)) * u) \<le> 71 / 2"
    by simp
  have "x \<le> 71 / 2" if u: "unit_draws rs" and i: "indicator = ''Stunting''"
  proof -
    from u have "rs n < 1" by (simp add: unit_draws_def)
    moreover from s i have "b \<le> 35" by blast
    ultimately have "b + - (3 / 10) * real_of_int (year - 2015) +
        (- (1 / 2) + (1 / 2 - - (1 / 2)) * rs n) \<le> 71 / 2"
      using y by (rule core [rotated])
    moreover have "x = b + - (3 / 10) * real_of_int (year - 2015) +
        (- (1 / 2) + (1 / 2 - - (1 / 2)) * rs n)"
      unfolding x_def i by simp
    ultimately show ?thesis by (simp only:)
  qed
  then have "nut_bounds rs \<lparr>n_Year = year, n_Region = region, Indicator = indicator, Rate = max 0 x\<rparr>"
    by (auto simp: nut_bounds_def)
  then show ?thesis
    unfolding run by (simp add: nut_key_def)
qed

lemma nut_table_rows:
  "\<exists>out n'. for_loop regions (nut_region rs) n = Inr (out, n') \<and>
     map nut_key out = cross3 years regions indicators \<and> (\<forall>r\<in>set out. nut_bounds rs r)"
proof -
  have inner: "\<exists>out n'. nut_indicator rs region indicator n = Inr (out, n') \<and>
      map nut_key out = map (\<lambda>y. (y, region, indicator)) years \<and> (\<forall>r\<in>set out. nut_bounds rs r)"
    if "region \<in> set regions" and "indicator \<in> set indicators" for region indicator n
    unfolding nut_indicator_def
    using for_loop_rows [where key = nut_key and g = "\<lambda>y. [(y, region, indicator)]"
          and P = "nut_bounds rs", OF nut_year_row [OF that]]
    by (simp only: concat_singletons)
  have middle: "\<exists>out n'. nut_region rs region n = Inr (out, n') \<and>
      map nut_key out = concat (map (\<lambda>z. map (\<lambda>y. (y, region, z)) years) indicators) \<and>
      (\<forall>r\<in>set out. nut_bounds rs r)"
    if "region \<in> set regions" for region n
    unfolding nut_region_def
    using inner [OF that]
    by (rule for_loop_rows [where key = nut_key and g = "\<lambda>z. map (\<lambda>y. (y, region, z)) years"
          and P = "nut_bounds rs"])
  show ?thesis
    unfolding cross3_def
    using middle
    by (rule for_loop_rows [where key = nut_key
          and g = "\<lambda>x. concat (map (\<lambda>z. map (\<lambda>y. (y, x, z)) years) indicators)"
          and P = "nut_bounds rs"])
qed

lemma set_cross3: "set (cross3 ys xs zs) = set ys \<times> set xs \<times> set zs"
  by (auto simp: cross3_def)

lemma cross3_chunk:
  "concat (map (\<lambda>z. map (\<lambda>y. (y, x, z)) ys) zs) = map (\<lambda>(y, z). (y, x, z)) (cross ys zs)"
  by (induction zs) (simp_all add: cross_def)

lemma length_cross3: "length (cross3 ys xs zs) = length xs * (length zs * length ys)"
  by (induction xs) (simp_all add: cross3_def cross3_chunk length_cross)

lemma distinct_cross3:
  "distinct ys \<Longrightarrow> distinct xs \<Longrightarrow> distinct zs \<Longrightarrow> distinct (cross3 ys xs zs)"
proof (induction xs)
  case Nil
  then show ?case by (simp add: cross3_def)
next
  case (Cons x xs)
  have "distinct (cross ys zs)"
    using Cons.prems by (simp add: distinct_cross)
  then have "distinct (map (\<lambda>(y, z). (y, x, z)) (cross ys zs))"
    by (simp add: distinct_map inj_on_def split_beta prod_eq_iff)
  moreover have "distinct (cross3 ys xs zs)"
    using Cons by simp
  moreover have "set (map (\<lambda>(y, z). (y, x, z)) (cross ys zs)) \<inter> set (cross3 ys xs zs) = {}"
    using Cons.prems(2) by (auto simp: set_cross3)
  ultimately show ?case
    by (simp add: cross3_def cross3_chunk)
qed

lemma distinct_years: "distinct years"
  unfolding years_def by (rule distinct_upto)

lemma length_years: "length years = 9"
  by (simp add: years_def)

lemma generate_rows:
  "\<exists>u p s nt. generate_sdg2_data rs = Inr (u, p, s, nt) \<and>
     map und_key u = cross years regions \<and>
     (\<forall>r\<in>set u. 0 \<le> Undernourishment_Rate r \<and>
        (unit_draws rs \<longrightarrow> Undernourishment_Rate r \<le> 26)) \<and>
     map prod_key p = cross years crops \<and>
     (\<forall>r\<in>set p. unit_draws rs \<longrightarrow> 0 < Production r) \<and>
     map sec_key s = cross years countries \<and> (\<forall>r\<in>set s. sec_bounds rs r) \<and>
     map nut_key nt = cross3 years regions indicators \<and> (\<forall>r\<in>set nt. nut_bounds rs r)"
proof -
  from und_table_rows [of rs 0] obtain u n1 where
    u: "for_loop regions (und_region rs) 0 = Inr (u, n1)" "map und_key u = cross years regions"
       "\<forall>r\<in>set u. 0 \<le> Undernourishment_Rate r \<and>
          (unit_draws rs \<longrightarrow> Undernourishment_Rate r \<le> 26)"
    by blast
  from prod_table_rows [of rs n1] obtain p n2 where
    p: "for_loop crops (prod_crop rs) n1 = Inr (p, n2)" "map prod_key p = cross years crops"
       "\<forall>r\<in>set p. unit_draws rs \<longrightarrow> 0 < Production r"
    by blast
  from sec_table_rows [of rs n2] obtain s n3 where
    s: "for_loop countries (sec_country rs) n2 = Inr (s, n3)"
       "map sec_key s = cross years countries" "\<forall>r\<in>set s. sec_bounds rs r"
    by blast
  from nut_table_rows [of rs n3] obtain nt n4 where
    nt: "for_loop regions (nut_region rs) n3 = Inr (nt, n4)"
        "map nut_key nt = cross3 years regions indicators" "\<forall>r\<in>set nt. nut_bounds rs r"
    by blast
  have "generate_sdg2_data rs = Inr (u, p, s, nt)"
    by (simp add: generate_sdg2_data_def u(1) p(1) s(1) nt(1))
  with u(2,3) p(2,3) s(2,3) nt(2,3) show ?thesis
    by blast
qed

text \<open>
  Claim C1. Generation always returns, and each of the four tables holds exactly one row for
  every pair of a year of 2015 to 2023 and a category of its fixed list, and no other row: no
  two rows share a key, the keys are the whole cross product, and the tables have 54, 54, 90
  and 162 rows.
\<close>

theorem generate_tables_cross_product:
  "\<exists>u p s nt. generate_sdg2_data rs = Inr (u, p, s, nt) \<and>
     distinct (map und_key u) \<and> set (map und_key u) = {2015..2023} \<times> set regions \<and>
     length u = 54 \<and>
     distinct (map prod_key p) \<and> set (map prod_key p) = {2015..2023} \<times> set crops \<and>
     length p = 54 \<and>
     distinct (map sec_key s) \<and> set (map sec_key s) = {2015..2023} \<times> set countries \<and>
     length s = 90 \<and>
     distinct (map nut_key nt) \<and>
     set (map nut_key nt) = {2015..2023} \<times> set regions \<times> set indicators \<and>
     length nt = 162"
proof -
  from generate_rows [of rs] obtain u p s nt where
    g: "generate_sdg2_data rs = Inr (u, p, s, nt)"
    and u: "map und_key u = cross years regions"
    and p: "map prod_key p = cross years crops"
    and s: "map sec_key s = cross years countries"
    and nt: "map nut_key nt = cross3 years regions indicators"
    by blast
  have dr: "distinct regions" by (simp add: regions_def)
  have dc: "distinct crops" by (simp add: crops_def)
  have dk: "distinct countries" by (simp add: countries_def)
  have di: "distinct indicators" by (simp add: indicators_def)
  have lu: "length u = 54"
    using arg_cong [OF u, of length] by (simp add: length_cross length_years regions_def)
  have lp: "length p = 54"
    using arg_cong [OF p, of length] by (simp add: length_cross length_years crops_def)
  have ls: "length s = 90"
    using arg_cong [OF s, of length] by (simp add: length_cross length_years countries_def)
  have ln: "length nt = 162"
    using arg_cong [OF nt, of length]
    by (simp add: length_cross3 length_years regions_def indicators_def)
  have "distinct (map und_key u)" "set (map und_key u) = {2015..2023} \<times> set regions"
    unfolding u by (simp_all only: distinct_cross distinct_years dr set_cross years_set)
  moreover have "distinct (map prod_key p)" "set (map prod_key p) = {2015..2023} \<times> set crops"
    unfolding p by (simp_all only: distinct_cross distinct_years dc set_cross years_set)
  moreover have "distinct (map sec_key s)" "set (map sec_key s) = {2015..2023} \<times> set countries"
    unfolding s by (simp_all only: distinct_cross distinct_years dk set_cross years_set)
  moreover have "distinct (map nut_key nt)"
    "set (map nut_key nt) = {2015..2023} \<times> set regions \<times> set indicators"
    unfolding nt by (simp_all only: distinct_cross3 distinct_years dr di set_cross3 years_set)
  ultimately show ?thesis
    using g lu lp ls ln by blast
qed

subsection \<open>Ranges of the generated values\<close>

text \<open>
  Claim C2. With the draws of the generator in the unit interval, generation returns and in
  every row of its tables the two rate fields are at least 0, the production is positive, the
  affected population is at least 0 and the food security level lies between 1 and 4.
\<close>

theorem generated_values_in_range:
  assumes "unit_draws rs"
  shows "\<exists>u p s nt. generate_sdg2_data rs = Inr (u, p, s, nt) \<and>
           (\<forall>r\<in>set u. 0 \<le> Undernourishment_Rate r) \<and>
           (\<forall>r\<in>set nt. 0 \<le> Rate r) \<and>
           (\<forall>r\<in>set p. 0 < Production r) \<and>
           (\<forall>r\<in>set s. 0 \<le> Population_Affected r \<and>
              1 \<le> Food_Security_Level r \<and> Food_Security_Level r \<le> 4)"
proof -
  from generate_rows [of rs] obtain u p s nt where
    g: "generate_sdg2_data rs = Inr (u, p, s, nt)"
    and u: "\<forall>r\<in>set u. 0 \<le> Undernourishment_Rate r \<and>
        (unit_draws rs \<longrightarrow> Undernourishment_Rate r \<le> 26)"
    and p: "\<forall>r\<in>set p. unit_draws rs \<longrightarrow> 0 < Production r"
    and s: "\<forall>r\<in>set s. sec_bounds rs r"
    and nt: "\<forall>r\<in>set nt. nut_bounds rs r"
    by blast
  have "\<forall>r\<in>set u. 0 \<le> Undernourishment_Rate r"
    using u by blast
  moreover have "\<forall>r\<in>set nt. 0 \<le> Rate r"
    using nt by (simp add: nut_bounds_def)
  moreover have "\<forall>r\<in>set p. 0 < Production r"
    using p assms by blast
  moreover have "\<forall>r\<in>set s. 0 \<le> Population_Affected r \<and>
      1 \<le> Food_Security_Level r \<and> Food_Security_Level r \<le> 4"
  proof
    fix r assume "r \<in> set s"
    with s have "sec_bounds rs r" by blast
    with assms show "0 \<le> Population_Affected r \<and>
      1 \<le> Food_Security_Level r \<and> Food_Security_Level r \<le> 4"
      by (simp add: sec_bounds_def)
  qed
  ultimately show ?thesis
    using g by blast
qed

theorem generated_values_in_range_witness:
  "unit_draws (\<lambda>n. 1 / 2) \<and>
   (\<exists>u p s nt. generate_sdg2_data (\<lambda>n. 1 / 2) = Inr (u, p, s, nt) \<and>
      (\<forall>r\<in>set u. 0 \<le> Undernourishment_Rate r) \<and>
      (\<forall>r\<in>set nt. 0 \<le> Rate r) \<and>
      (\<forall>r\<in>set p. 0 < Production r) \<and>
      (\<forall>r\<in>set s. 0 \<le> Population_Affected r \<and>
         1 \<le> Food_Security_Level r \<and> Food_Security_Level r \<le> 4))"
proof -
  have h: "unit_draws (\<lambda>n. 1 / 2)"
    by (simp add: unit_draws_def)
  from generated_values_in_range [OF h] h show ?thesis
    by (rule_tac conjI)
qed

text \<open>
  Claim C10. With the draws in the unit interval, every food security row has a level of at
  most 3.7, so below 4: the value under the upper clamp, base plus trend plus noise, is
  itself at most 3.7 in every year of the table and the clamp at 4 returns it unchanged.
\<close>

theorem security_level_below_emergency:
  assumes "unit_draws rs"
  shows "(\<exists>u p s nt. generate_sdg2_data rs = Inr (u, p, s, nt) \<and>
            (\<forall>r\<in>set s. Food_Security_Level r \<le> 37 / 10 \<and> Food_Security_Level r < 4)) \<and>
         (\<forall>year\<in>set years. \<forall>n.
            fst (uniform rs (15 / 10) (35 / 10) n) + - (5 / 100) * real_of_int (year - 2015) +
              fst (uniform rs (- (2 / 10)) (2 / 10) (Suc n)) \<le> 37 / 10 \<and>
            min 4 (fst (uniform rs (15 / 10) (35 / 10) n) + - (5 / 100) * real_of_int (year - 2015) +
                fst (uniform rs (- (2 / 10)) (2 / 10) (Suc n))) =
              fst (uniform rs (15 / 10) (35 / 10) n) + - (5 / 100) * real_of_int (year - 2015) +
                fst (uniform rs (- (2 / 10)) (2 / 10) (Suc n)))"
proof
  from generate_rows [of rs] obtain u p s nt where
    g: "generate_sdg2_data rs = Inr (u, p, s, nt)" and s: "\<forall>r\<in>set s. sec_bounds rs r"
    by blast
  have "\<forall>r\<in>set s. Food_Security_Level r \<le> 37 / 10 \<and> Food_Security_Level r < 4"
  proof
    fix r assume "r \<in> set s"
    with s have "sec_bounds rs r" by blast
    with assms have "Food_Security_Level r \<le> 37 / 10"
      by (simp add: sec_bounds_def)
    then show "Food_Security_Level r \<le> 37 / 10 \<and> Food_Security_Level r < 4"
      by simp
  qed
  with g show "\<exists>u p s nt. generate_sdg2_data rs = Inr (u, p, s, nt) \<and>
      (\<forall>r\<in>set s. Food_Security_Level r \<le> 37 / 10 \<and> Food_Security_Level r < 4)"
    by blast
next
  have core: "\<And>t u v::real. 0 \<le> t \<Longrightarrow> u < 1 \<Longrightarrow> v < 1 \<Longrightarrow>
     15 / 10 + (35 / 10 - 15 / 10) * u + - (5 / 100) * t + (- (2 / 10) + (2 / 10 - - (2 / 10)) * v)
       \<le> 37 / 10"
    by simp
  show "\<forall>year\<in>set years. \<forall>n.
            fst (uniform rs (15 / 10) (35 / 10) n) + - (5 / 100) * real_of_int (year - 2015) +
              fst (uniform rs (- (2 / 10)) (2 / 10) (Suc n)) \<le> 37 / 10 \<and>
            min 4 (fst (uniform rs (15 / 10) (35 / 10) n) + - (5 / 100) * real_of_int (year - 2015) +
                fst (uniform rs (- (2 / 10)) (2 / 10) (Suc n))) =
              fst (uniform rs (15 / 10) (35 / 10) n) + - (5 / 100) * real_of_int (year - 2015) +
                fst (uniform rs (- (2 / 10)) (2 / 10) (Suc n))"
  proof (intro ballI allI)
    fix year n assume "year \<in> set years"
    then have y: "0 \<le> real_of_int (year - 2015)"
      by (simp add: years_set)
    from assms have r: "rs n < 1" "rs (Suc n) < 1"
      by (simp_all add: unit_draws_def)
    define x where "x = fst (uniform rs (15 / 10) (35 / 10) n) +
        - (5 / 100) * real_of_int (year - 2015) + fst (uniform rs (- (2 / 10)) (2 / 10) (Suc n))"
    from core [OF y r] have "x \<le> 37 / 10"
      by (simp only: x_def uniform_def fst_conv)
    then have "x \<le> 37 / 10 \<and> min 4 x = x"
      by simp
    then show "fst (uniform rs (15 / 10) (35 / 10) n) + - (5 / 100) * real_of_int (year - 2015) +
              fst (uniform rs (- (2 / 10)) (2 / 10) (Suc n)) \<le> 37 / 10 \<and>
            min 4 (fst (uniform rs (15 / 10) (35 / 10) n) + - (5 / 100) * real_of_int (year - 2015) +
                fst (uniform rs (- (2 / 10)) (2 / 10) (Suc n))) =
              fst (uniform rs (15 / 10) (35 / 10) n) + - (5 / 100) * real_of_int (year - 2015) +
                fst (uniform rs (- (2 / 10)) (2 / 10) (Suc n))"
      unfolding x_def .
  qed
qed


theorem security_level_below_emergency_witness:
  "unit_draws (\<lambda>n. 1 / 2) \<and>
   (\<exists>u p s nt. generate_sdg2_data (\<lambda>n. 1 / 2) = Inr (u, p, s, nt) \<and>
      (\<forall>r\<in>set s. Food_Security_Level r \<le> 37 / 10 \<and> Food_Security_Level r < 4)) \<and>
   min 4 (fst (uniform (\<lambda>n. 1 / 2) (15 / 10) (35 / 10) 0) + - (5 / 100) * real_of_int (2023 - 2015) +
      fst (uniform (\<lambda>n. 1 / 2) (- (2 / 10)) (2 / 10) (Suc 0))) = 21 / 10"
proof -
  have h: "unit_draws (\<lambda>n. 1 / 2)"
    by (simp add: unit_draws_def)
  have v: "min 4 (fst (uniform (\<lambda>n. 1 / 2) (15 / 10) (35 / 10) 0) +
      - (5 / 100) * real_of_int (2023 - 2015) +
      fst (uniform (\<lambda>n. 1 / 2) (- (2 / 10)) (2 / 10) (Suc 0))) = (21 / 10 :: real)"
    by (simp add: uniform_def)
  from security_level_below_emergency [OF h] h v show ?thesis
    by blast
qed

subsection \<open>Annual growth rate\<close>

lemma round_half_even_of_int: "round_half_even (of_int m) = m"
  by (simp add: round_half_even_def)

lemma round_half_even_nonneg: "0 \<le> t \<Longrightarrow> 0 \<le> round_half_even t"
  by (auto simp: round_half_even_def Let_def)

lemma rnd64_nonneg: "0 \<le> x \<Longrightarrow> 0 \<le> rnd64 x"
  by (simp add: rnd64_def round_half_even_nonneg)

lemma rnd64_zero: "rnd64 0 = 0"
  by (simp add: rnd64_def)

lemma rnd64_dyadic:
  assumes "x \<noteq> 0" and "\<lfloor>log 2 \<bar>x\<bar>\<rfloor> = n"
    and "x / 2 powi (max (n - 52) (- 1074)) = of_int m"
  shows "rnd64 x = x"
proof -
  have e: "ulp_exponent x = max (n - 52) (- 1074)"
    by (simp add: ulp_exponent_def assms(2))
  have "rnd64 x = of_int (round_half_even (of_int m)) * 2 powi (max (n - 52) (- 1074))"
    using assms(1) by (simp only: rnd64_def e assms(3) if_False)
  also have "\<dots> = x / 2 powi (max (n - 52) (- 1074)) * 2 powi (max (n - 52) (- 1074))"
    by (simp only: round_half_even_of_int assms(3))
  also have "\<dots> = x"
    by simp
  finally show ?thesis .
qed

lemma floor_log2:
  assumes "2 ^ n \<le> x" and "x < 2 ^ Suc n"
  shows "\<lfloor>log 2 x\<rfloor> = int n"
proof -
  have "0 < x" using assms(1) by (rule less_le_trans [rotated]) simp
  then show ?thesis
    using assms by (simp add: floor_log_eq_powr_iff powr_realpow powr_add)
qed

lemma rnd64_one: "rnd64 1 = 1"
  by (rule rnd64_dyadic [where n = 0 and m = "2 ^ 52"]) (simp_all add: power_int_minus)

lemma rnd64_100: "rnd64 100 = 100"
proof (rule rnd64_dyadic [where n = 6 and m = "100 * 2 ^ 46"])
  show "\<lfloor>log 2 \<bar>100 :: real\<bar>\<rfloor> = 6"
    using floor_log2 [of 6 100] by simp
qed (simp_all add: power_int_minus)

lemma rnd64_256: "rnd64 256 = 256"
proof (rule rnd64_dyadic [where n = 8 and m = "256 * 2 ^ 44"])
  show "\<lfloor>log 2 \<bar>256 :: real\<bar>\<rfloor> = 8"
    using floor_log2 [of 8 256] by simp
qed (simp_all add: power_int_minus)

lemma fl_not_nan: "fl x \<noteq> NaN"
  by (simp add: fl_def)

lemma threshold_values:
  "\<not> overflow_threshold \<le> 1" "\<not> overflow_threshold \<le> 100" "\<not> overflow_threshold \<le> 256"
  "overflow_threshold \<le> 110 * 2 ^ 1020" "overflow_threshold \<le> 130 * 2 ^ 1020"
  "\<not> overflow_threshold \<le> 13 / 11" "\<not> overflow_threshold \<le> 0"
  "1 < overflow_threshold" "100 < overflow_threshold" "256 < overflow_threshold"
  by (simp_all add: overflow_threshold_def)


lemma set_unique: "set (unique xs) = set xs"
  by (induction xs rule: unique.induct) auto

lemma distinct_unique: "distinct (unique xs)"
  by (induction xs rule: unique.induct) (auto simp: set_unique)

lemma filter_crop_year:
  "filter (\<lambda>r. p_Year r = y) (filter (\<lambda>r. Crop r = c) df) =
   filter (\<lambda>r. Crop r = c \<and> p_Year r = y) df"
  by (induction df) auto

lemma growth_rate_row_error:
  assumes "growth_rate_row pw df c = Inl e"
  shows "e = IndexError"
  using assms
  by (auto simp: growth_rate_row_def iloc0_def Let_def split: list.splits sum.splits)

lemma growth_loop_error:
  assumes "c \<in> set cs" and "growth_rate_row pw df c = Inl IndexError"
  shows "growth_loop pw df cs = Inl IndexError"
  using assms
proof (induction cs)
  case Nil
  then show ?case by simp
next
  case (Cons a cs)
  show ?case
  proof (cases "growth_rate_row pw df a")
    case (Inl e)
    then show ?thesis
      using growth_rate_row_error [OF Inl] by simp
  next
    case (Inr row)
    with Cons.prems have "c \<in> set cs" by auto
    with Cons have "growth_loop pw df cs = Inl IndexError" by simp
    with Inr show ?thesis by simp
  qed
qed

text \<open>
  Claim C4, as the code has it. When the 2015 value or the 2023 value of a crop is absent, the
  growth rate of the crop fails with \<open>IndexError\<close>, the exception of \<^verbatim>\<open>.iloc[0]\<close> on an empty
  selection, and so does the loop over the crops of the table when the crop is one of them.
\<close>

theorem growth_rate_missing_endpoint:
  assumes "filter (\<lambda>r. Crop r = crop \<and> p_Year r = 2015) production_df = [] \<or>
           filter (\<lambda>r. Crop r = crop \<and> p_Year r = 2023) production_df = []"
  shows "growth_rate_row pw production_df crop = Inl IndexError \<and>
         (crop \<in> set (map Crop production_df) \<longrightarrow>
            growth_rates pw production_df = Inl IndexError)"
proof -
  have row: "growth_rate_row pw production_df crop = Inl IndexError"
    using assms
    by (auto simp: growth_rate_row_def filter_crop_year iloc0_def split: list.splits)
  have "growth_rates pw production_df = Inl IndexError"
    if "crop \<in> set (map Crop production_df)"
    unfolding growth_rates_def
    using that row by (intro growth_loop_error [of crop]) (simp_all only: set_unique)
  with row show ?thesis by blast
qed

theorem growth_rate_missing_endpoint_witness:
  "filter (\<lambda>r. Crop r = ''Fish'' \<and> p_Year r = 2015)
     [\<lparr>p_Year = 2016, Crop = ''Fish'', Production = 200, Unit = ''Million Tonnes''\<rparr>,
      \<lparr>p_Year = 2023, Crop = ''Fish'', Production = 230, Unit = ''Million Tonnes''\<rparr>] = [] \<and>
   growth_rate_row (powr)
     [\<lparr>p_Year = 2016, Crop = ''Fish'', Production = 200, Unit = ''Million Tonnes''\<rparr>,
      \<lparr>p_Year = 2023, Crop = ''Fish'', Production = 230, Unit = ''Million Tonnes''\<rparr>]
     ''Fish'' = Inl IndexError \<and>
   growth_rates (powr)
     [\<lparr>p_Year = 2016, Crop = ''Fish'', Production = 200, Unit = ''Million Tonnes''\<rparr>,
      \<lparr>p_Year = 2023, Crop = ''Fish'', Production = 230, Unit = ''Million Tonnes''\<rparr>] =
     Inl IndexError"
  using growth_rate_missing_endpoint [of "''Fish''"
     "[\<lparr>p_Year = 2016, Crop = ''Fish'', Production = 200, Unit = ''Million Tonnes''\<rparr>,
       \<lparr>p_Year = 2023, Crop = ''Fish'', Production = 230, Unit = ''Million Tonnes''\<rparr>]"
     "(powr)"]
  by simp

text \<open>
  The claim as stated fails: with only the 2023 value of a crop in the table the failure is
  \<open>IndexError\<close>, not \<open>InsufficientDataError\<close>, whatever the power function.
\<close>

theorem growth_rate_error_counterexample:
  "\<forall>pw.
   growth_rate_row pw
     [\<lparr>p_Year = 2023, Crop = ''Cereals'', Production = 120, Unit = ''Million Tonnes''\<rparr>]
     ''Cereals'' = Inl IndexError \<and>
   growth_rate_row pw
     [\<lparr>p_Year = 2023, Crop = ''Cereals'', Production = 120, Unit = ''Million Tonnes''\<rparr>]
     ''Cereals'' \<noteq> Inl InsufficientDataError \<and>
   growth_rates pw
     [\<lparr>p_Year = 2023, Crop = ''Cereals'', Production = 120, Unit = ''Million Tonnes''\<rparr>] \<noteq>
     Inl InsufficientDataError"
  by (simp add: growth_rate_row_def growth_rates_def iloc0_def)


lemma growth_of_finite:
  assumes "f \<noteq> 0" and "\<bar>l / f\<bar> < overflow_threshold" and "0 \<le> rnd64 (l / f)"
    and "\<bar>pw (rnd64 (l / f)) (1 / 8) - 1\<bar> < overflow_threshold"
    and "\<bar>rnd64 (pw (rnd64 (l / f)) (1 / 8) - 1) * 100\<bar> < overflow_threshold"
  shows "growth_of pw (Finite f) (Finite l) =
           Finite (rnd64 (rnd64 (pw (rnd64 (l / f)) (1 / 8) - 1) * 100))"
proof -
  have d: "np_div (Finite l) (Finite f) = Finite (rnd64 (l / f))"
    using assms(1,2) by (simp add: np_div_def fl_def)
  have p: "np_pow pw (Finite (rnd64 (l / f))) (1 / 8) = Finite (pw (rnd64 (l / f)) (1 / 8))"
    using assms(3) by (simp add: np_pow_def)
  have s: "np_sub (Finite (pw (rnd64 (l / f)) (1 / 8))) 1 =
      Finite (rnd64 (pw (rnd64 (l / f)) (1 / 8) - 1))"
    using assms(4) by (simp add: np_sub_def fl_def)
  have m: "np_mul (Finite (rnd64 (pw (rnd64 (l / f)) (1 / 8) - 1))) 100 =
      Finite (rnd64 (rnd64 (pw (rnd64 (l / f)) (1 / 8) - 1) * 100))"
    using assms(5) by (simp add: np_mul_def fl_def)
  show ?thesis
    by (simp only: growth_of_def d p s m)
qed

lemma growth_of_overflow:
  assumes "f \<noteq> 0" and "overflow_threshold \<le> \<bar>l / f\<bar>"
  shows "growth_of pw (Finite f) (Finite l) = Infinite"
  using assms by (simp add: growth_of_def np_div_def fl_def np_pow_def np_sub_def np_mul_def)

lemma growth_of_zero_first:
  "growth_of pw (Finite 0) (Finite l) = (if l = 0 then NaN else Infinite)"
  by (simp add: growth_of_def np_div_def np_pow_def np_sub_def np_mul_def)

lemma growth_of_negative:
  assumes "f \<noteq> 0" and "\<bar>l / f\<bar> < overflow_threshold" and "rnd64 (l / f) < 0"
  shows "growth_of pw (Finite f) (Finite l) = NaN"
  using assms by (simp add: growth_of_def np_div_def fl_def np_pow_def np_sub_def np_mul_def)

text \<open>
  Claim C6. When the table holds exactly one row of the crop for 2015 and exactly one for
  2023, the growth rate of the crop is \<^verbatim>\<open>((last / first) ** (1/8) - 1) * 100\<close> of their two
  production values, computed in \<^verbatim>\<open>float64\<close>: the quotient rounded, the library's power of
  it, the difference rounded and the product rounded, when the quotient is not negative and
  nothing overflows; \<^verbatim>\<open>inf\<close> when the quotient overflows or only the first value is 0; \<^verbatim>\<open>nan\<close>
  when both values are 0 or the quotient is negative.
\<close>

theorem growth_rate_formula:
  assumes "filter (\<lambda>r. Crop r = crop \<and> p_Year r = 2015) production_df = [r1]"
    and "filter (\<lambda>r. Crop r = crop \<and> p_Year r = 2023) production_df = [r2]"
  shows "growth_rate_row pw production_df crop =
           Inr \<lparr>g_Crop = crop,
                Growth_Rate = growth_of pw (Finite (Production r1)) (Finite (Production r2))\<rparr> \<and>
         (Production r1 \<noteq> 0 \<and> \<bar>Production r2 / Production r1\<bar> < overflow_threshold \<and>
          0 \<le> rnd64 (Production r2 / Production r1) \<and>
          \<bar>pw (rnd64 (Production r2 / Production r1)) (1 / 8) - 1\<bar> < overflow_threshold \<and>
          \<bar>rnd64 (pw (rnd64 (Production r2 / Production r1)) (1 / 8) - 1) * 100\<bar>
            < overflow_threshold \<longrightarrow>
            growth_rate_row pw production_df crop =
              Inr \<lparr>g_Crop = crop,
                   Growth_Rate =
                     Finite (rnd64 (rnd64 (pw (rnd64 (Production r2 / Production r1)) (1 / 8) - 1)
                               * 100))\<rparr>) \<and>
         (Production r1 \<noteq> 0 \<and> overflow_threshold \<le> \<bar>Production r2 / Production r1\<bar> \<longrightarrow>
            growth_rate_row pw production_df crop = Inr \<lparr>g_Crop = crop, Growth_Rate = Infinite\<rparr>) \<and>
         (Production r1 = 0 \<longrightarrow>
            growth_rate_row pw production_df crop =
              Inr \<lparr>g_Crop = crop,
                   Growth_Rate = (if Production r2 = 0 then NaN else Infinite)\<rparr>) \<and>
         (Production r1 \<noteq> 0 \<and> \<bar>Production r2 / Production r1\<bar> < overflow_threshold \<and>
          rnd64 (Production r2 / Production r1) < 0 \<longrightarrow>
            growth_rate_row pw production_df crop = Inr \<lparr>g_Crop = crop, Growth_Rate = NaN\<rparr>)"
proof -
  have row: "growth_rate_row pw production_df crop =
           Inr \<lparr>g_Crop = crop,
                Growth_Rate = growth_of pw (Finite (Production r1)) (Finite (Production r2))\<rparr>"
    by (simp add: growth_rate_row_def filter_crop_year assms iloc0_def)
  show ?thesis
    unfolding row
    by (intro conjI impI)
      (simp_all add: growth_of_finite growth_of_overflow growth_of_zero_first growth_of_negative)
qed

theorem growth_rate_formula_witness:
  "growth_rate_row (powr)
     [\<lparr>p_Year = 2015, Crop = ''Meat'', Production = 1, Unit = ''Million Tonnes''\<rparr>,
      \<lparr>p_Year = 2019, Crop = ''Meat'', Production = 310, Unit = ''Million Tonnes''\<rparr>,
      \<lparr>p_Year = 2023, Crop = ''Meat'', Production = 256, Unit = ''Million Tonnes''\<rparr>,
      \<lparr>p_Year = 2023, Crop = ''Dairy'', Production = 800, Unit = ''Million Tonnes''\<rparr>]
     ''Meat'' = Inr \<lparr>g_Crop = ''Meat'', Growth_Rate = Finite 100\<rparr>"
proof -
  have p: "(256 :: real) powr (1 / 8) = 2"
  proof -
    have "(256 :: real) = 2 powr 8" by simp
    then have "(256 :: real) powr (1 / 8) = (2 powr 8) powr (1 / 8)" by (simp only:)
    also have "\<dots> = 2" by (simp add: powr_powr)
    finally show ?thesis .
  qed
  from growth_rate_formula [of "''Meat''"
     "[\<lparr>p_Year = 2015, Crop = ''Meat'', Production = 1, Unit = ''Million Tonnes''\<rparr>,
       \<lparr>p_Year = 2019, Crop = ''Meat'', Production = 310, Unit = ''Million Tonnes''\<rparr>,
       \<lparr>p_Year = 2023, Crop = ''Meat'', Production = 256, Unit = ''Million Tonnes''\<rparr>,
       \<lparr>p_Year = 2023, Crop = ''Dairy'', Production = 800, Unit = ''Million Tonnes''\<rparr>]"
     "\<lparr>p_Year = 2015, Crop = ''Meat'', Production = 1, Unit = ''Million Tonnes''\<rparr>"
     "\<lparr>p_Year = 2023, Crop = ''Meat'', Production = 256, Unit = ''Million Tonnes''\<rparr>"
     "(powr)", THEN conjunct2, THEN conjunct1]
  show ?thesis
    by (simp add: rnd64_256 rnd64_one rnd64_100 p threshold_values)
qed

subsection \<open>Scaling the production values\<close>

lemma rnd64_at:
  assumes "x \<noteq> 0" and "ulp_exponent x = e" and "x / 2 powi e = t"
  shows "rnd64 x = of_int (round_half_even t) * 2 powi e"
  using assms by (simp only: rnd64_def if_False)

lemma tiny_product: "rnd64 (1 / 4 * (1 / 2 ^ 1074)) = 0"
proof -
  have x: "(1 / 4 * (1 / 2 ^ 1074) :: real) = 2 powr (- 1076)"
    by (simp add: powr_minus powr_realpow [symmetric] field_simps)
  have e: "ulp_exponent (2 powr (- 1076)) = - 1074"
    by (simp add: ulp_exponent_def)
  have t: "(2 powr (- 1076) :: real) / 2 powi (- 1074) = 1 / 4"
    by (simp add: powr_minus power_int_minus powr_realpow [symmetric] field_simps)
  have r: "round_half_even (1 / 4) = 0"
    by (simp add: round_half_even_def)
  have "rnd64 (2 powr (- 1076)) = of_int (round_half_even (1 / 4)) * 2 powi (- 1074)"
    by (rule rnd64_at [OF _ e t]) simp
  then show ?thesis
    unfolding x r by simp
qed


lemma scale_value_tiny: "scale_value (1 / 2 ^ 1074) (1 / 4) = Finite 0"
proof -
  have "\<not> overflow_threshold \<le> \<bar>1 / 4 * (1 / 2 ^ 1074)\<bar>"
    by (simp add: overflow_threshold_def)
  then show ?thesis
    by (simp only: scale_value_def np_mul_def npfloat.case fl_def if_False tiny_product)
qed

lemma scale_value_huge:
  "scale_value (2 ^ 1020) 110 = Infinite" "scale_value (2 ^ 1020) 130 = Infinite"
  by (simp_all add: scale_value_def np_mul_def fl_def overflow_threshold_def)

lemma np_mul_not_nan: "x \<noteq> NaN \<Longrightarrow> c \<noteq> 0 \<Longrightarrow> np_mul x c \<noteq> NaN"
  by (cases x) (simp_all add: np_mul_def fl_not_nan)

lemma np_sub_not_nan: "x \<noteq> NaN \<Longrightarrow> np_sub x c \<noteq> NaN"
  by (cases x) (simp_all add: np_sub_def fl_not_nan)

lemma growth_of_not_nan:
  assumes "f \<noteq> 0" and "0 \<le> l / f"
  shows "growth_of pw (Finite f) (Finite l) \<noteq> NaN"
proof -
  have "np_div (Finite l) (Finite f) = fl (l / f)"
    using assms(1) by (simp add: np_div_def)
  moreover have "np_pow pw (fl (l / f)) (1 / 8) \<noteq> NaN"
    using rnd64_nonneg [OF assms(2)] by (simp add: fl_def np_pow_def not_less)
  ultimately show ?thesis
    unfolding growth_of_def by (simp add: np_mul_not_nan np_sub_not_nan)
qed

lemma crop_scale_crop: "map Crop (scale_crop k crop df) = map Crop df"
  by (induction df) (simp_all add: scale_crop_def)

lemma selection_scale_crop:
  "map Production (filter (\<lambda>r. Crop r = c \<and> p_Year r = y) (scale_crop k crop df)) =
   (if c = crop
    then map ((*) k) (map Production (filter (\<lambda>r. Crop r = c \<and> p_Year r = y) df))
    else map Production (filter (\<lambda>r. Crop r = c \<and> p_Year r = y) df))"
proof -
  define f where "f = (\<lambda>r::production_row. if Crop r = crop then r\<lparr>Production := k * Production r\<rparr> else r)"
  have keep: "(\<lambda>r. Crop r = c \<and> p_Year r = y) \<circ> f = (\<lambda>r. Crop r = c \<and> p_Year r = y)"
    by (rule ext) (simp add: f_def)
  have sel: "filter (\<lambda>r. Crop r = c \<and> p_Year r = y) (scale_crop k crop df) =
      map f (filter (\<lambda>r. Crop r = c \<and> p_Year r = y) df)"
    unfolding scale_crop_def f_def [symmetric] by (simp only: filter_map keep)
  have "map Production (map f (filter (\<lambda>r. Crop r = c \<and> p_Year r = y) df)) =
      map (\<lambda>r. if c = crop then k * Production r else Production r)
        (filter (\<lambda>r. Crop r = c \<and> p_Year r = y) df)"
    by (simp add: f_def)
  then show ?thesis
    unfolding sel by (simp add: comp_def)
qed

lemma growth_of_scaled:
  assumes "k \<noteq> 0"
  shows "growth_of pw (Finite (k * f)) (Finite (k * l)) = growth_of pw (Finite f) (Finite l)"
proof -
  have "np_div (Finite (k * l)) (Finite (k * f)) = np_div (Finite l) (Finite f)"
    using assms by (simp add: np_div_def)
  then show ?thesis
    by (simp only: growth_of_def)
qed

lemma scaled_endpoints:
  assumes "k \<noteq> 0"
  shows "(case iloc0 (map ((*) k) xs) of
            Inl e \<Rightarrow> Inl e
          | Inr f \<Rightarrow>
              (case iloc0 (map ((*) k) ys) of
                 Inl e \<Rightarrow> Inl e
               | Inr l \<Rightarrow> Inr \<lparr>g_Crop = c, Growth_Rate = growth_of pw (Finite f) (Finite l)\<rparr>)) =
         (case iloc0 xs of
            Inl e \<Rightarrow> Inl e
          | Inr f \<Rightarrow>
              (case iloc0 ys of
                 Inl e \<Rightarrow> Inl e
               | Inr l \<Rightarrow> Inr \<lparr>g_Crop = c, Growth_Rate = growth_of pw (Finite f) (Finite l)\<rparr>))"
  by (cases xs; cases ys) (simp_all add: iloc0_def growth_of_scaled [OF assms])

lemma growth_rate_row_scale_crop:
  assumes "k \<noteq> 0"
  shows "growth_rate_row pw (scale_crop k crop df) c = growth_rate_row pw df c"
proof (cases "c = crop")
  case False
  then show ?thesis
    by (simp only: growth_rate_row_def Let_def filter_crop_year selection_scale_crop if_False)
next
  case True
  show ?thesis
    unfolding growth_rate_row_def Let_def filter_crop_year selection_scale_crop True
    by (simp only: refl if_True) (rule scaled_endpoints [OF assms])
qed

lemma growth_loop_cong:
  assumes "\<And>c. growth_rate_row pw df' c = growth_rate_row pw df c"
  shows "growth_loop pw df' cs = growth_loop pw df cs"
  by (induction cs) (simp_all add: assms split: sum.splits)

lemma scale_rows_exact:
  assumes "\<forall>r\<in>set df. Crop r = crop \<longrightarrow> scale_value k (Production r) = Finite (k * Production r)"
  shows "scale_rows k crop df = Some (scale_crop k crop df)"
  using assms by (induction df) (simp_all add: scale_crop_def)

text \<open>
  Claim C7, as the code has it. For \<open>k > 0\<close> such that the \<^verbatim>\<open>float64\<close> product of \<open>k\<close> with every
  production value of the crop is exact, the table after the multiplication holds \<open>k\<close> times
  each value, and the growth rate of the crop and the table of growth rates are the same as
  before it.
\<close>

theorem growth_rate_scale_invariant:
  assumes "0 < k"
    and "\<forall>r\<in>set production_df. Crop r = crop \<longrightarrow>
           scale_value k (Production r) = Finite (k * Production r)"
  shows "\<exists>scaled. scale_rows k crop production_df = Some scaled \<and>
           scaled = scale_crop k crop production_df \<and>
           growth_rate_row pw scaled crop = growth_rate_row pw production_df crop \<and>
           growth_rates pw scaled = growth_rates pw production_df"
proof -
  from assms(1) have k: "k \<noteq> 0" by simp
  have "growth_rates pw (scale_crop k crop production_df) = growth_rates pw production_df"
    unfolding growth_rates_def crop_scale_crop
    by (rule growth_loop_cong) (rule growth_rate_row_scale_crop [OF k])
  with growth_rate_row_scale_crop [OF k] scale_rows_exact [OF assms(2)] show ?thesis
    by simp
qed


lemma scale_rows_two:
  assumes "scale_value k a = Finite a'" and "scale_value k b = Finite b'"
  shows "scale_rows k c
     [\<lparr>p_Year = y1, Crop = c, Production = a, Unit = u1\<rparr>,
      \<lparr>p_Year = y2, Crop = c, Production = b, Unit = u2\<rparr>] =
     Some [\<lparr>p_Year = y1, Crop = c, Production = a', Unit = u1\<rparr>,
           \<lparr>p_Year = y2, Crop = c, Production = b', Unit = u2\<rparr>]"
  using assms by simp

lemma scale_rows_overflow:
  assumes "scale_value k a = Infinite"
  shows "scale_rows k c (\<lparr>p_Year = y1, Crop = c, Production = a, Unit = u1\<rparr> # rs) = None"
  using assms by simp

theorem growth_rate_scale_invariant_witness:
  "(0 :: real) < 2 \<and>
   scale_value 2 (1 / 2) = Finite (2 * (1 / 2)) \<and> scale_value 2 128 = Finite (2 * 128) \<and>
   scale_rows 2 ''Fruits''
     [\<lparr>p_Year = 2015, Crop = ''Fruits'', Production = 1 / 2, Unit = ''Million Tonnes''\<rparr>,
      \<lparr>p_Year = 2023, Crop = ''Fruits'', Production = 128, Unit = ''Million Tonnes''\<rparr>] =
     Some [\<lparr>p_Year = 2015, Crop = ''Fruits'', Production = 1, Unit = ''Million Tonnes''\<rparr>,
           \<lparr>p_Year = 2023, Crop = ''Fruits'', Production = 256, Unit = ''Million Tonnes''\<rparr>] \<and>
   growth_rate_row (powr)
     [\<lparr>p_Year = 2015, Crop = ''Fruits'', Production = 1, Unit = ''Million Tonnes''\<rparr>,
      \<lparr>p_Year = 2023, Crop = ''Fruits'', Production = 256, Unit = ''Million Tonnes''\<rparr>]
     ''Fruits'' =
   growth_rate_row (powr)
     [\<lparr>p_Year = 2015, Crop = ''Fruits'', Production = 1 / 2, Unit = ''Million Tonnes''\<rparr>,
      \<lparr>p_Year = 2023, Crop = ''Fruits'', Production = 128, Unit = ''Million Tonnes''\<rparr>]
     ''Fruits''"
proof -
  let ?df = "[\<lparr>p_Year = 2015, Crop = ''Fruits'', Production = 1 / 2, Unit = ''Million Tonnes''\<rparr>,
      \<lparr>p_Year = 2023, Crop = ''Fruits'', Production = 128, Unit = ''Million Tonnes''\<rparr>]"
  have v: "scale_value 2 (1 / 2) = Finite (2 * (1 / 2))" "scale_value 2 128 = Finite (2 * 128)"
    by (simp_all add: scale_value_def np_mul_def fl_def threshold_values rnd64_one rnd64_256)
  then have h: "\<forall>r\<in>set ?df. Crop r = ''Fruits'' \<longrightarrow>
      scale_value 2 (Production r) = Finite (2 * Production r)"
    by simp
  have k: "(0 :: real) < 2" by simp
  from growth_rate_scale_invariant [OF k h, of "(powr)"] v show ?thesis
    by (simp add: scale_crop_def)
qed

text \<open>
  The claim as stated fails where the products are not exact. Multiplied by the smallest
  positive double, the values 0.25 and 0.25 both round to 0 and the rate, nan, is no longer
  that of the table; multiplied by \<open>2 ^ 1020\<close>, the values 110 and 130 both overflow to
  \<^verbatim>\<open>inf\<close> and line 341 gives \<^verbatim>\<open>nan\<close> on them, while the rate of the table is not.
\<close>

theorem growth_rate_scale_counterexample:
  "\<forall>pw.
   scale_rows (1 / 2 ^ 1074) ''Cereals''
     [\<lparr>p_Year = 2015, Crop = ''Cereals'', Production = 1 / 4, Unit = ''Million Tonnes''\<rparr>,
      \<lparr>p_Year = 2023, Crop = ''Cereals'', Production = 1 / 4, Unit = ''Million Tonnes''\<rparr>] =
     Some [\<lparr>p_Year = 2015, Crop = ''Cereals'', Production = 0, Unit = ''Million Tonnes''\<rparr>,
           \<lparr>p_Year = 2023, Crop = ''Cereals'', Production = 0, Unit = ''Million Tonnes''\<rparr>] \<and>
   growth_rate_row pw
     [\<lparr>p_Year = 2015, Crop = ''Cereals'', Production = 0, Unit = ''Million Tonnes''\<rparr>,
      \<lparr>p_Year = 2023, Crop = ''Cereals'', Production = 0, Unit = ''Million Tonnes''\<rparr>]
     ''Cereals'' = Inr \<lparr>g_Crop = ''Cereals'', Growth_Rate = NaN\<rparr> \<and>
   growth_rate_row pw
     [\<lparr>p_Year = 2015, Crop = ''Cereals'', Production = 1 / 4, Unit = ''Million Tonnes''\<rparr>,
      \<lparr>p_Year = 2023, Crop = ''Cereals'', Production = 1 / 4, Unit = ''Million Tonnes''\<rparr>]
     ''Cereals'' \<noteq> Inr \<lparr>g_Crop = ''Cereals'', Growth_Rate = NaN\<rparr> \<and>
   scale_rows (2 ^ 1020) ''Cereals''
     [\<lparr>p_Year = 2015, Crop = ''Cereals'', Production = 110, Unit = ''Million Tonnes''\<rparr>,
      \<lparr>p_Year = 2023, Crop = ''Cereals'', Production = 130, Unit = ''Million Tonnes''\<rparr>] = None \<and>
   growth_of pw (scale_value (2 ^ 1020) 110) (scale_value (2 ^ 1020) 130) = NaN \<and>
   growth_rate_row pw
     [\<lparr>p_Year = 2015, Crop = ''Cereals'', Production = 110, Unit = ''Million Tonnes''\<rparr>,
      \<lparr>p_Year = 2023, Crop = ''Cereals'', Production = 130, Unit = ''Million Tonnes''\<rparr>]
     ''Cereals'' \<noteq> Inr \<lparr>g_Crop = ''Cereals'', Growth_Rate = NaN\<rparr>"
proof (intro allI conjI)
  fix pw :: "real \<Rightarrow> real \<Rightarrow> real"
  show "scale_rows (1 / 2 ^ 1074) ''Cereals''
     [\<lparr>p_Year = 2015, Crop = ''Cereals'', Production = 1 / 4, Unit = ''Million Tonnes''\<rparr>,
      \<lparr>p_Year = 2023, Crop = ''Cereals'', Production = 1 / 4, Unit = ''Million Tonnes''\<rparr>] =
     Some [\<lparr>p_Year = 2015, Crop = ''Cereals'', Production = 0, Unit = ''Million Tonnes''\<rparr>,
           \<lparr>p_Year = 2023, Crop = ''Cereals'', Production = 0, Unit = ''Million Tonnes''\<rparr>]"
    by (rule scale_rows_two [OF scale_value_tiny scale_value_tiny])
  show "growth_rate_row pw
     [\<lparr>p_Year = 2015, Crop = ''Cereals'', Production = 0, Unit = ''Million Tonnes''\<rparr>,
      \<lparr>p_Year = 2023, Crop = ''Cereals'', Production = 0, Unit = ''Million Tonnes''\<rparr>]
     ''Cereals'' = Inr \<lparr>g_Crop = ''Cereals'', Growth_Rate = NaN\<rparr>"
    by (simp add: growth_rate_row_def iloc0_def growth_of_zero_first)
  have "growth_of pw (Finite (1 / 4)) (Finite (1 / 4)) \<noteq> NaN"
    by (rule growth_of_not_nan) simp_all
  then show "growth_rate_row pw
     [\<lparr>p_Year = 2015, Crop = ''Cereals'', Production = 1 / 4, Unit = ''Million Tonnes''\<rparr>,
      \<lparr>p_Year = 2023, Crop = ''Cereals'', Production = 1 / 4, Unit = ''Million Tonnes''\<rparr>]
     ''Cereals'' \<noteq> Inr \<lparr>g_Crop = ''Cereals'', Growth_Rate = NaN\<rparr>"
    by (simp add: growth_rate_row_def iloc0_def)
  show "scale_rows (2 ^ 1020) ''Cereals''
     [\<lparr>p_Year = 2015, Crop = ''Cereals'', Production = 110, Unit = ''Million Tonnes''\<rparr>,
      \<lparr>p_Year = 2023, Crop = ''Cereals'', Production = 130, Unit = ''Million Tonnes''\<rparr>] = None"
    by (rule scale_rows_overflow [OF scale_value_huge(1)])
  show "growth_of pw (scale_value (2 ^ 1020) 110) (scale_value (2 ^ 1020) 130) = NaN"
    unfolding scale_value_huge
    by (simp add: growth_of_def np_div_def np_pow_def np_sub_def np_mul_def)
  have "growth_of pw (Finite 110) (Finite 130) \<noteq> NaN"
    by (rule growth_of_not_nan) simp_all
  then show "growth_rate_row pw
     [\<lparr>p_Year = 2015, Crop = ''Cereals'', Production = 110, Unit = ''Million Tonnes''\<rparr>,
      \<lparr>p_Year = 2023, Crop = ''Cereals'', Production = 130, Unit = ''Million Tonnes''\<rparr>]
     ''Cereals'' \<noteq> Inr \<lparr>g_Crop = ''Cereals'', Growth_Rate = NaN\<rparr>"
    by (simp add: growth_rate_row_def iloc0_def)
qed

subsection \<open>Progress tracking\<close>







subsection \<open>Heatmap pivots\<close>

lemma pivot_distinct:
  assumes "distinct (map (\<lambda>(r, c, v). (r, c)) t)"
  shows "pivot t =
     Inr (sort (remdups (map fst (map (\<lambda>(r, c, v). (r, c)) t))),
          sort (remdups (map snd (map (\<lambda>(r, c, v). (r, c)) t))),
          map (\<lambda>r. map (\<lambda>c. map_of (map (\<lambda>(r, c, v). ((r, c), v)) t) (r, c))
                 (sort (remdups (map snd (map (\<lambda>(r, c, v). (r, c)) t)))))
            (sort (remdups (map fst (map (\<lambda>(r, c, v). (r, c)) t)))))"
  using assms by (simp add: pivot_def Let_def)

lemma pivot_error:
  assumes "pivot t = Inl e"
  shows "e = ValueError"
  using assms by (simp add: pivot_def Let_def split: if_splits)

lemma pivot_cell_filled:
  assumes "(r, c) \<in> set (map (\<lambda>(r, c, v). (r, c)) t)"
  shows "map_of (map (\<lambda>(r, c, v). ((r, c), v)) t) (r, c) \<noteq> None"
proof -
  have "fst ` set (map (\<lambda>(r, c, v). ((r, c), v)) t) = set (map (\<lambda>(r, c, v). (r, c)) t)"
    by (force simp: image_iff)
  with assms show ?thesis
    by (simp only: map_of_eq_None_iff not_not)
qed


lemma pivot_cell_value:
  assumes d: "distinct (map (\<lambda>(r, c, v). (r, c)) t)" and m: "(r, c, v) \<in> set t"
  shows "\<exists>idx cols cells i j. pivot t = Inr (idx, cols, cells) \<and>
     i < length idx \<and> j < length cols \<and> idx ! i = r \<and> cols ! j = c \<and>
     cells ! i ! j = Some v"
proof -
  define keys where "keys = map (\<lambda>(r, c, v). (r, c)) t"
  define al where "al = map (\<lambda>(r, c, v). ((r, c), v)) t"
  define idx where "idx = sort (remdups (map fst keys))"
  define cols where "cols = sort (remdups (map snd keys))"
  define cells where "cells = map (\<lambda>r. map (\<lambda>c. map_of al (r, c)) cols) idx"
  have piv: "pivot t = Inr (idx, cols, cells)"
    unfolding pivot_distinct [OF d] idx_def cols_def cells_def al_def keys_def ..
  from m have "(r, c) \<in> set keys"
    unfolding keys_def by force
  then have "r \<in> set idx" and "c \<in> set cols"
    unfolding idx_def cols_def by force+
  then obtain i j where i: "i < length idx" "idx ! i = r" and j: "j < length cols" "cols ! j = c"
    by (auto simp: in_set_conv_nth)
  have "map fst al = keys"
    unfolding al_def keys_def by (simp add: split_beta)
  with d have "distinct (map fst al)"
    unfolding keys_def by simp
  moreover from m have "((r, c), v) \<in> set al"
    unfolding al_def by force
  ultimately have "map_of al (r, c) = Some v"
    by (rule map_of_is_SomeI)
  with i j have "cells ! i ! j = Some v"
    unfolding cells_def by simp
  with piv i j show ?thesis by blast
qed

lemma length_sort_remdups: "length (sort (remdups xs)) = card (set xs)"
  by (simp add: length_remdups_card_conv)

text \<open>
  Claim C9. A table in which no (row key, column key) pair occurs twice is pivoted without
  any error: the result has the row keys and the column keys of the table as labels and one
  matrix row of full width per row label, and the value of each row of the table stands in
  the cell of its two keys. A table with a repeated pair fails with
  \<open>ValueError\<close>; no pivot fails with \<open>MissingKeyError\<close>. The pivot
  of a generated undernourishment table on region, year and rate is a matrix of 6 rows and
  9 columns in which every cell holds a value.
\<close>

theorem pivot_unique_keys_complete:
  "(distinct (map (\<lambda>(r, c, v). (r, c)) t) \<longrightarrow>
      (\<exists>idx cols cells. pivot t = Inr (idx, cols, cells) \<and>
         set idx = set (map (\<lambda>(r, c, v). r) t) \<and> set cols = set (map (\<lambda>(r, c, v). c) t) \<and>
         sorted idx \<and> distinct idx \<and> sorted cols \<and> distinct cols \<and>
         length cells = length idx \<and> (\<forall>row\<in>set cells. length row = length cols) \<and>
         (\<forall>(r, c, v)\<in>set t. \<exists>i j. i < length idx \<and> j < length cols \<and>
            idx ! i = r \<and> cols ! j = c \<and> cells ! i ! j = Some v))) \<and>
   (\<not> distinct (map (\<lambda>(r, c, v). (r, c)) t) \<longrightarrow> pivot t = Inl ValueError) \<and>
   pivot t \<noteq> Inl MissingKeyError \<and>
   (\<exists>u p s nt idx cols cells. generate_sdg2_data rs = Inr (u, p, s, nt) \<and>
      pivot_data u = Inr (idx, cols, cells) \<and>
      length idx = 6 \<and> length cols = 9 \<and> length cells = 6 \<and>
      (\<forall>row\<in>set cells. length row = 9 \<and> None \<notin> set row))"
proof (intro conjI impI)
  assume d: "distinct (map (\<lambda>(r, c, v). (r, c)) t)"
  have f: "map fst (map (\<lambda>(r, c, v). (r, c)) t) = map (\<lambda>(r, c, v). r) t"
    by (simp add: split_beta)
  have g: "map snd (map (\<lambda>(r, c, v). (r, c)) t) = map (\<lambda>(r, c, v). c) t"
    by (simp add: split_beta)
  have shape: "\<exists>idx cols cells. pivot t = Inr (idx, cols, cells) \<and>
         set idx = set (map (\<lambda>(r, c, v). r) t) \<and> set cols = set (map (\<lambda>(r, c, v). c) t) \<and>
         sorted idx \<and> distinct idx \<and> sorted cols \<and> distinct cols \<and>
         length cells = length idx \<and> (\<forall>row\<in>set cells. length row = length cols)"
    unfolding pivot_distinct [OF d] f g by auto
  then obtain idx cols cells where piv: "pivot t = Inr (idx, cols, cells)"
    and sh: "set idx = set (map (\<lambda>(r, c, v). r) t)" "set cols = set (map (\<lambda>(r, c, v). c) t)"
      "sorted idx" "distinct idx" "sorted cols" "distinct cols"
      "length cells = length idx" "\<forall>row\<in>set cells. length row = length cols"
    by blast
  have "\<exists>i j. i < length idx \<and> j < length cols \<and>
            idx ! i = r \<and> cols ! j = c \<and> cells ! i ! j = Some v"
    if "(r, c, v) \<in> set t" for r c v
    using pivot_cell_value [OF d that] unfolding piv by simp
  then have "\<forall>(r, c, v)\<in>set t. \<exists>i j. i < length idx \<and> j < length cols \<and>
            idx ! i = r \<and> cols ! j = c \<and> cells ! i ! j = Some v"
    by blast
  with piv sh
  show "\<exists>idx cols cells. pivot t = Inr (idx, cols, cells) \<and>
         set idx = set (map (\<lambda>(r, c, v). r) t) \<and> set cols = set (map (\<lambda>(r, c, v). c) t) \<and>
         sorted idx \<and> distinct idx \<and> sorted cols \<and> distinct cols \<and>
         length cells = length idx \<and> (\<forall>row\<in>set cells. length row = length cols) \<and>
         (\<forall>(r, c, v)\<in>set t. \<exists>i j. i < length idx \<and> j < length cols \<and>
            idx ! i = r \<and> cols ! j = c \<and> cells ! i ! j = Some v)"
    by blast
next
  assume "\<not> distinct (map (\<lambda>(r, c, v). (r, c)) t)"
  then show "pivot t = Inl ValueError"
    by (simp add: pivot_def)
next
  show "pivot t \<noteq> Inl MissingKeyError"
    using pivot_error [of t MissingKeyError] by auto
next
  from generate_rows [of rs] obtain u p s nt where
    gen: "generate_sdg2_data rs = Inr (u, p, s, nt)"
    and u: "map und_key u = cross years regions"
    by blast
  let ?t = "map (\<lambda>r. (u_Region r, u_Year r, Undernourishment_Rate r)) u"
  let ?keys = "map (\<lambda>(r, c, v). (r, c)) ?t"
  have keys: "?keys = map prod.swap (map und_key u)"
    by (simp add: und_key_def)
  have dr: "distinct regions" by (simp add: regions_def)
  have "distinct (map und_key u)"
    unfolding u using distinct_years dr by (rule distinct_cross)
  moreover have "inj_on prod.swap (set (map und_key u))"
    by (rule inj_on_inverseI [where g = prod.swap]) simp
  ultimately have d: "distinct ?keys"
    unfolding keys by (simp only: distinct_map [of prod.swap] simp_thms)
  have ks: "set ?keys = set regions \<times> set years"
    unfolding keys u by (auto simp: set_cross)
  have y: "set years \<noteq> {}" by (simp add: years_set)
  have r: "set regions \<noteq> {}" by (simp add: regions_def)
  have si: "set (map fst ?keys) = set regions"
  proof -
    have "set (map fst ?keys) = fst ` set ?keys"
      by (simp only: set_map)
    also have "\<dots> = fst ` (set regions \<times> set years)"
      by (simp only: ks)
    also have "\<dots> = set regions"
      using y by (simp only: fst_image_times if_False)
    finally show ?thesis .
  qed
  have sc: "set (map snd ?keys) = set years"
  proof -
    have "set (map snd ?keys) = snd ` set ?keys"
      by (simp only: set_map)
    also have "\<dots> = snd ` (set regions \<times> set years)"
      by (simp only: ks)
    also have "\<dots> = set years"
      using r by (simp only: snd_image_times if_False)
    finally show ?thesis .
  qed
  define idx where "idx = sort (remdups (map fst ?keys))"
  define cols where "cols = sort (remdups (map snd ?keys))"
  define al where "al = map (\<lambda>(r, c, v). ((r, c), v)) ?t"
  define cells where "cells = map (\<lambda>r. map (\<lambda>c. map_of al (r, c)) cols) idx"
  have piv: "pivot_data u = Inr (idx, cols, cells)"
    unfolding pivot_data_def pivot_distinct [OF d] idx_def cols_def cells_def al_def ..
  have li: "length idx = 6"
    unfolding idx_def length_sort_remdups si
    using distinct_card [OF dr] by (simp add: regions_def)
  have lc: "length cols = 9"
    unfolding cols_def length_sort_remdups sc
    using distinct_card [OF distinct_years] by (simp add: length_years)
  have sidx: "set idx = set regions"
    unfolding idx_def using si by simp
  have scols: "set cols = set years"
    unfolding cols_def using sc by simp
  have rows: "length row = 9 \<and> None \<notin> set row" if "row \<in> set cells" for row
  proof -
    from that obtain r where r: "r \<in> set idx" and row: "row = map (\<lambda>c. map_of al (r, c)) cols"
      unfolding cells_def by auto
    have filled: "map_of al (r, c) \<noteq> None" if "c \<in> set cols" for c
      unfolding al_def
    proof (rule pivot_cell_filled)
      from r that have "(r, c) \<in> set regions \<times> set years"
        unfolding sidx scols by simp
      then show "(r, c) \<in> set ?keys"
        unfolding ks .
    qed
    have "None \<notin> set row"
    proof
      assume "None \<in> set row"
      then obtain c where "c \<in> set cols" and "map_of al (r, c) = None"
        unfolding row by auto
      with filled show False by blast
    qed
    moreover have "length row = 9"
      unfolding row using lc by simp
    ultimately show ?thesis by simp
  qed
  have "length cells = 6"
    unfolding cells_def using li by simp
  with gen piv li lc rows
  show "\<exists>u p s nt idx cols cells. generate_sdg2_data rs = Inr (u, p, s, nt) \<and>
      pivot_data u = Inr (idx, cols, cells) \<and>
      length idx = 6 \<and> length cols = 9 \<and> length cells = 6 \<and>
      (\<forall>row\<in>set cells. length row = 9 \<and> None \<notin> set row)"
    by blast
qed

theorem pivot_unique_keys_complete_witness:
  "distinct (map (\<lambda>(r, c, v). (r, c))
     [(''Europe'', 2015 :: int, 2 :: real), (''Asia'', 2016, 11), (''Asia'', 2015, 12)]) \<and>
   pivot [(''Europe'', 2015 :: int, 2 :: real), (''Asia'', 2016, 11), (''Asia'', 2015, 12)] =
     Inr ([''Asia'', ''Europe''], [2015, 2016], [[Some 12, Some 11], [Some 2, None]]) \<and>
   (\<exists>idx cols cells.
      pivot [(''Europe'', 2015 :: int, 2 :: real), (''Asia'', 2016, 11), (''Asia'', 2015, 12)] =
        Inr (idx, cols, cells) \<and>
      set idx = {''Europe'', ''Asia''} \<and> set cols = {2015, 2016} \<and>
      length cells = length idx)"
proof -
  let ?t = "[(''Europe'', 2015 :: int, 2 :: real), (''Asia'', 2016, 11), (''Asia'', 2015, 12)]"
  have d: "distinct (map (\<lambda>(r, c, v). (r, c)) ?t)"
    by simp
  have l: "''Asia'' \<le> ''Europe''" "\<not> ''Europe'' \<le> ''Asia''"
    by (simp_all add: list_le_def)
  have ev: "pivot ?t =
      Inr ([''Asia'', ''Europe''], [2015, 2016], [[Some 12, Some 11], [Some 2, None]])"
    by (simp add: pivot_def Let_def l)
  from pivot_unique_keys_complete [of ?t "\<lambda>n. 1 / 2"] d
  have "\<exists>idx cols cells. pivot ?t = Inr (idx, cols, cells) \<and>
      set idx = set (map (\<lambda>(r, c, v). r) ?t) \<and> set cols = set (map (\<lambda>(r, c, v). c) ?t) \<and>
      sorted idx \<and> distinct idx \<and> sorted cols \<and> distinct cols \<and>
      length cells = length idx \<and> (\<forall>row\<in>set cells. length row = length cols) \<and>
      (\<forall>(r, c, v)\<in>set ?t. \<exists>i j. i < length idx \<and> j < length cols \<and>
         idx ! i = r \<and> cols ! j = c \<and> cells ! i ! j = Some v)"
    by blast
  then have "\<exists>idx cols cells. pivot ?t = Inr (idx, cols, cells) \<and>
      set idx = {''Europe'', ''Asia''} \<and> set cols = {2015, 2016} \<and> length cells = length idx"
    by auto
  with d ev show ?thesis
    by (intro conjI)
qed

subsection \<open>Radar values\<close>








subsection \<open>Regional ranking\<close>

lemma rank_count_le:
  fixes a b :: real
  assumes "a < b"
  shows "length (filter (\<lambda>x. x < a) xs) + length (filter (\<lambda>x. x = a) xs)
         \<le> length (filter (\<lambda>x. x < b) xs)"
  using assms by (induction xs) auto

lemma rank_avg_strict_mono:
  assumes "a \<in> set xs" and "a < b"
  shows "rank_avg xs a < rank_avg xs b"
proof -
  have "filter (\<lambda>x. x = a) xs \<noteq> []"
    using assms(1) by (simp add: filter_empty_conv)
  then have pos: "1 \<le> length (filter (\<lambda>x. x = a) xs)"
    by (simp add: Suc_le_eq)
  from rank_count_le [OF assms(2), of xs]
  have "real (length (filter (\<lambda>x. x < a) xs)) + real (length (filter (\<lambda>x. x = a) xs))
        \<le> real (length (filter (\<lambda>x. x < b) xs))"
    by (simp only: of_nat_add [symmetric] of_nat_le_iff)
  moreover from pos have "1 \<le> real (length (filter (\<lambda>x. x = a) xs))"
    by simp
  moreover have "0 \<le> real (length (filter (\<lambda>x. x = b) xs))"
    by simp
  ultimately show ?thesis
    unfolding rank_avg_def by (simp add: field_simps)
qed

lemma merge_rank_mem:
  assumes "(u, ur) \<in> set ranking_data" and "(reg, sr) \<in> set stunting_ranks"
    and "reg = u_Region u"
  shows "\<lparr>rk_Year = u_Year u, rk_Region = u_Region u,
          rk_Undernourishment_Rate = Undernourishment_Rate u,
          Undernourishment_Rank = ur, Stunting_Rank = sr,
          Overall_Score = (ur + sr) / 2\<rparr> \<in> set (merge_rank ranking_data stunting_ranks)"
  using assms unfolding merge_rank_def by force

lemma final_ranking_mem:
  assumes "u \<in> set undernourishment_df" and "u_Year u = year"
    and "nr \<in> set nutrition_df" and "n_Year nr = year" and "Indicator nr = ''Stunting''"
    and "n_Region nr = u_Region u"
  shows "\<lparr>rk_Year = u_Year u, rk_Region = u_Region u,
          rk_Undernourishment_Rate = Undernourishment_Rate u,
          Undernourishment_Rank =
            rank_avg (map Undernourishment_Rate (filter (\<lambda>r. u_Year r = year) undernourishment_df))
              (Undernourishment_Rate u),
          Stunting_Rank =
            rank_avg (map Rate (filter (\<lambda>r. Indicator r = ''Stunting'')
                (filter (\<lambda>r. n_Year r = year) nutrition_df))) (Rate nr),
          Overall_Score =
            (rank_avg (map Undernourishment_Rate (filter (\<lambda>r. u_Year r = year) undernourishment_df))
              (Undernourishment_Rate u) +
             rank_avg (map Rate (filter (\<lambda>r. Indicator r = ''Stunting'')
                (filter (\<lambda>r. n_Year r = year) nutrition_df))) (Rate nr)) / 2\<rparr>
         \<in> set (final_ranking undernourishment_df nutrition_df year)"
proof -
  have "(u, rank_avg (map Undernourishment_Rate
            (filter (\<lambda>r. u_Year r = year) undernourishment_df)) (Undernourishment_Rate u))
      \<in> set (map (\<lambda>r. (r, rank_avg (map Undernourishment_Rate
            (filter (\<lambda>r. u_Year r = year) undernourishment_df)) (Undernourishment_Rate r)))
          (filter (\<lambda>r. u_Year r = year) undernourishment_df))"
    unfolding set_map by (rule image_eqI [where x = u]) (simp_all add: assms(1,2))
  moreover have "(n_Region nr, rank_avg (map Rate (filter (\<lambda>r. Indicator r = ''Stunting'')
                (filter (\<lambda>r. n_Year r = year) nutrition_df))) (Rate nr))
      \<in> set (map (\<lambda>r. (n_Region r, rank_avg (map Rate (filter (\<lambda>r. Indicator r = ''Stunting'')
                (filter (\<lambda>r. n_Year r = year) nutrition_df))) (Rate r)))
          (filter (\<lambda>r. Indicator r = ''Stunting'') (filter (\<lambda>r. n_Year r = year) nutrition_df)))"
    unfolding set_map by (rule image_eqI [where x = nr]) (simp_all add: assms(3,4,5))
  ultimately show ?thesis
    unfolding final_ranking_def Let_def set_sort
    by (rule merge_rank_mem) (rule assms(6))
qed

lemma sorted_position:
  assumes "sorted (map f xs)" and "a \<in> set xs" and "b \<in> set xs" and "f a < (f b :: real)"
  shows "\<exists>i j. i < j \<and> j < length xs \<and> xs ! i = a \<and> xs ! j = b"
proof -
  from assms(2) obtain i where i: "i < length xs" "xs ! i = a"
    by (auto simp: in_set_conv_nth)
  from assms(3) obtain j where j: "j < length xs" "xs ! j = b"
    by (auto simp: in_set_conv_nth)
  have "i < j"
  proof (rule ccontr)
    assume "\<not> i < j"
    then have "j \<le> i" by simp
    with assms(1) i(1) have "map f xs ! j \<le> map f xs ! i"
      by (intro sorted_nth_mono) simp_all
    with i j assms(4) show False by simp
  qed
  with i j show ?thesis by blast
qed


text \<open>
  Claim C8. Let regions A and B both have a row of the year in the undernourishment table
  and a Stunting row of the year in the nutrition table, A's undernourishment rate strictly
  below B's and A's stunting rate strictly below B's. Then the ranking table has a row for A
  and a row for B; the two ranks of each are the average-method ranks of its rates among the
  rates of the year (the number of smaller rates plus half of the number of equal rates plus
  one), its \<open>Overall_Score\<close> is the average of its two ranks, A's score is strictly less than
  B's, and, the table being sorted by ascending score, A's row comes before B's.
\<close>

theorem composite_rank_monotone:
  assumes "ua \<in> set undernourishment_df" and "u_Year ua = year"
    and "ub \<in> set undernourishment_df" and "u_Year ub = year"
    and "na \<in> set nutrition_df" and "n_Year na = year" and "Indicator na = ''Stunting''"
    and "n_Region na = u_Region ua"
    and "nb \<in> set nutrition_df" and "n_Year nb = year" and "Indicator nb = ''Stunting''"
    and "n_Region nb = u_Region ub"
    and "Undernourishment_Rate ua < Undernourishment_Rate ub"
    and "Rate na < Rate nb"
    and "urates = map Undernourishment_Rate (filter (\<lambda>r. u_Year r = year) undernourishment_df)"
    and "srates = map Rate (filter (\<lambda>r. Indicator r = ''Stunting'')
           (filter (\<lambda>r. n_Year r = year) nutrition_df))"
    and "fr = final_ranking undernourishment_df nutrition_df year"
  shows "\<exists>i j ya yb. i < j \<and> j < length fr \<and> fr ! i = ya \<and> fr ! j = yb \<and>
      rk_Region ya = u_Region ua \<and>
      rk_Undernourishment_Rate ya = Undernourishment_Rate ua \<and>
      Undernourishment_Rank ya =
        real (length (filter (\<lambda>x. x < Undernourishment_Rate ua) urates)) +
        (real (length (filter (\<lambda>x. x = Undernourishment_Rate ua) urates)) + 1) / 2 \<and>
      Stunting_Rank ya =
        real (length (filter (\<lambda>x. x < Rate na) srates)) +
        (real (length (filter (\<lambda>x. x = Rate na) srates)) + 1) / 2 \<and>
      Overall_Score ya = (Undernourishment_Rank ya + Stunting_Rank ya) / 2 \<and>
      rk_Region yb = u_Region ub \<and>
      rk_Undernourishment_Rate yb = Undernourishment_Rate ub \<and>
      Undernourishment_Rank yb =
        real (length (filter (\<lambda>x. x < Undernourishment_Rate ub) urates)) +
        (real (length (filter (\<lambda>x. x = Undernourishment_Rate ub) urates)) + 1) / 2 \<and>
      Stunting_Rank yb =
        real (length (filter (\<lambda>x. x < Rate nb) srates)) +
        (real (length (filter (\<lambda>x. x = Rate nb) srates)) + 1) / 2 \<and>
      Overall_Score yb = (Undernourishment_Rank yb + Stunting_Rank yb) / 2 \<and>
      Overall_Score ya < Overall_Score yb \<and>
      sorted (map Overall_Score fr)"
proof -
  define ya where "ya =
    \<lparr>rk_Year = u_Year ua, rk_Region = u_Region ua,
     rk_Undernourishment_Rate = Undernourishment_Rate ua,
     Undernourishment_Rank = rank_avg urates (Undernourishment_Rate ua),
     Stunting_Rank = rank_avg srates (Rate na),
     Overall_Score =
       (rank_avg urates (Undernourishment_Rate ua) + rank_avg srates (Rate na)) / 2\<rparr>"
  define yb where "yb =
    \<lparr>rk_Year = u_Year ub, rk_Region = u_Region ub,
     rk_Undernourishment_Rate = Undernourishment_Rate ub,
     Undernourishment_Rank = rank_avg urates (Undernourishment_Rate ub),
     Stunting_Rank = rank_avg srates (Rate nb),
     Overall_Score =
       (rank_avg urates (Undernourishment_Rate ub) + rank_avg srates (Rate nb)) / 2\<rparr>"
  have ma: "ya \<in> set fr"
    unfolding ya_def assms(15,16,17)
    by (rule final_ranking_mem [OF assms(1,2,5,6,7,8)])
  have mb: "yb \<in> set fr"
    unfolding yb_def assms(15,16,17)
    by (rule final_ranking_mem [OF assms(3,4,9,10,11,12)])
  have "Undernourishment_Rate ua \<in> set urates"
    unfolding assms(15) using assms(1,2) by simp
  from rank_avg_strict_mono [OF this assms(13)]
  have r1: "rank_avg urates (Undernourishment_Rate ua) < rank_avg urates (Undernourishment_Rate ub)" .
  have "Rate na \<in> set srates"
    unfolding assms(16) using assms(5,6,7) by simp
  from rank_avg_strict_mono [OF this assms(14)]
  have r2: "rank_avg srates (Rate na) < rank_avg srates (Rate nb)" .
  from r1 r2 have less: "Overall_Score ya < Overall_Score yb"
    by (simp add: ya_def yb_def)
  have sorted: "sorted (map Overall_Score fr)"
    unfolding assms(17) final_ranking_def Let_def by (rule sorted_sort_key)
  from sorted_position [OF sorted ma mb less]
  obtain i j where ij: "i < j" "j < length fr" "fr ! i = ya" "fr ! j = yb"
    by blast
  have a1: "rk_Region ya = u_Region ua"
    and a2: "rk_Undernourishment_Rate ya = Undernourishment_Rate ua"
    and a3: "Undernourishment_Rank ya =
        real (length (filter (\<lambda>x. x < Undernourishment_Rate ua) urates)) +
        (real (length (filter (\<lambda>x. x = Undernourishment_Rate ua) urates)) + 1) / 2"
    and a4: "Stunting_Rank ya =
        real (length (filter (\<lambda>x. x < Rate na) srates)) +
        (real (length (filter (\<lambda>x. x = Rate na) srates)) + 1) / 2"
    and a5: "Overall_Score ya = (Undernourishment_Rank ya + Stunting_Rank ya) / 2"
    by (simp_all add: ya_def rank_avg_def)
  have b1: "rk_Region yb = u_Region ub"
    and b2: "rk_Undernourishment_Rate yb = Undernourishment_Rate ub"
    and b3: "Undernourishment_Rank yb =
        real (length (filter (\<lambda>x. x < Undernourishment_Rate ub) urates)) +
        (real (length (filter (\<lambda>x. x = Undernourishment_Rate ub) urates)) + 1) / 2"
    and b4: "Stunting_Rank yb =
        real (length (filter (\<lambda>x. x < Rate nb) srates)) +
        (real (length (filter (\<lambda>x. x = Rate nb) srates)) + 1) / 2"
    and b5: "Overall_Score yb = (Undernourishment_Rank yb + Stunting_Rank yb) / 2"
    by (simp_all add: yb_def rank_avg_def)
  from ij a1 a2 a3 a4 a5 b1 b2 b3 b4 b5 less sorted show ?thesis
    by blast
qed


theorem composite_rank_monotone_witness:
  "let undernourishment_df =
         [\<lparr>u_Year = 2023, u_Region = ''Asia'', Undernourishment_Rate = 10\<rparr>,
          \<lparr>u_Year = 2023, u_Region = ''Europe'', Undernourishment_Rate = 3\<rparr>,
          \<lparr>u_Year = 2023, u_Region = ''Oceania'', Undernourishment_Rate = 3\<rparr>,
          \<lparr>u_Year = 2015, u_Region = ''Europe'', Undernourishment_Rate = 50\<rparr>];
       nutrition_df =
         [\<lparr>n_Year = 2023, n_Region = ''Asia'', Indicator = ''Stunting'', Rate = 20\<rparr>,
          \<lparr>n_Year = 2023, n_Region = ''Europe'', Indicator = ''Stunting'', Rate = 5\<rparr>,
          \<lparr>n_Year = 2023, n_Region = ''Oceania'', Indicator = ''Stunting'', Rate = 7\<rparr>,
          \<lparr>n_Year = 2023, n_Region = ''Europe'', Indicator = ''Wasting'', Rate = 99\<rparr>,
          \<lparr>n_Year = 2015, n_Region = ''Asia'', Indicator = ''Stunting'', Rate = 1\<rparr>];
       fr = final_ranking undernourishment_df nutrition_df 2023
   in fr =
        [\<lparr>rk_Year = 2023, rk_Region = ''Europe'', rk_Undernourishment_Rate = 3,
          Undernourishment_Rank = 3 / 2, Stunting_Rank = 1, Overall_Score = 5 / 4\<rparr>,
         \<lparr>rk_Year = 2023, rk_Region = ''Oceania'', rk_Undernourishment_Rate = 3,
          Undernourishment_Rank = 3 / 2, Stunting_Rank = 2, Overall_Score = 7 / 4\<rparr>,
         \<lparr>rk_Year = 2023, rk_Region = ''Asia'', rk_Undernourishment_Rate = 10,
          Undernourishment_Rank = 3, Stunting_Rank = 3, Overall_Score = 3\<rparr>] \<and>
      (\<exists>i j ya yb. i < j \<and> j < length fr \<and> fr ! i = ya \<and> fr ! j = yb \<and>
         rk_Region ya = ''Europe'' \<and> rk_Undernourishment_Rate ya = 3 \<and>
         Undernourishment_Rank ya = 3 / 2 \<and> Stunting_Rank ya = 1 \<and>
         rk_Region yb = ''Asia'' \<and> rk_Undernourishment_Rate yb = 10 \<and>
         Undernourishment_Rank yb = 3 \<and> Stunting_Rank yb = 3 \<and>
         Overall_Score ya < Overall_Score yb \<and> sorted (map Overall_Score fr))"
proof -
  let ?U = "[\<lparr>u_Year = 2023, u_Region = ''Asia'', Undernourishment_Rate = 10\<rparr>,
          \<lparr>u_Year = 2023, u_Region = ''Europe'', Undernourishment_Rate = 3\<rparr>,
          \<lparr>u_Year = 2023, u_Region = ''Oceania'', Undernourishment_Rate = 3\<rparr>,
          \<lparr>u_Year = 2015, u_Region = ''Europe'', Undernourishment_Rate = (50::real)\<rparr>]"
  let ?N = "[\<lparr>n_Year = 2023, n_Region = ''Asia'', Indicator = ''Stunting'', Rate = 20\<rparr>,
          \<lparr>n_Year = 2023, n_Region = ''Europe'', Indicator = ''Stunting'', Rate = 5\<rparr>,
          \<lparr>n_Year = 2023, n_Region = ''Oceania'', Indicator = ''Stunting'', Rate = 7\<rparr>,
          \<lparr>n_Year = 2023, n_Region = ''Europe'', Indicator = ''Wasting'', Rate = 99\<rparr>,
          \<lparr>n_Year = 2015, n_Region = ''Asia'', Indicator = ''Stunting'', Rate = (1::real)\<rparr>]"
  let ?ua = "\<lparr>u_Year = 2023, u_Region = ''Europe'', Undernourishment_Rate = (3::real)\<rparr>"
  let ?ub = "\<lparr>u_Year = 2023, u_Region = ''Asia'', Undernourishment_Rate = (10::real)\<rparr>"
  let ?na = "\<lparr>n_Year = 2023, n_Region = ''Europe'', Indicator = ''Stunting'', Rate = (5::real)\<rparr>"
  let ?nb = "\<lparr>n_Year = 2023, n_Region = ''Asia'', Indicator = ''Stunting'', Rate = (20::real)\<rparr>"
  let ?fr = "final_ranking ?U ?N 2023"
  have ev: "?fr =
        [\<lparr>rk_Year = 2023, rk_Region = ''Europe'', rk_Undernourishment_Rate = 3,
          Undernourishment_Rank = 3 / 2, Stunting_Rank = 1, Overall_Score = 5 / 4\<rparr>,
         \<lparr>rk_Year = 2023, rk_Region = ''Oceania'', rk_Undernourishment_Rate = 3,
          Undernourishment_Rank = 3 / 2, Stunting_Rank = 2, Overall_Score = 7 / 4\<rparr>,
         \<lparr>rk_Year = 2023, rk_Region = ''Asia'', rk_Undernourishment_Rate = 10,
          Undernourishment_Rank = 3, Stunting_Rank = 3, Overall_Score = 3\<rparr>]"
    by (simp add: final_ranking_def merge_rank_def rank_avg_def)
  have p: "?ua \<in> set ?U" "u_Year ?ua = 2023" "?ub \<in> set ?U" "u_Year ?ub = 2023"
    "?na \<in> set ?N" "n_Year ?na = 2023" "Indicator ?na = ''Stunting''"
    "n_Region ?na = u_Region ?ua"
    "?nb \<in> set ?N" "n_Year ?nb = 2023" "Indicator ?nb = ''Stunting''"
    "n_Region ?nb = u_Region ?ub"
    "Undernourishment_Rate ?ua < Undernourishment_Rate ?ub"
    "Rate ?na < Rate ?nb"
    "[10, 3, 3] = map Undernourishment_Rate (filter (\<lambda>r. u_Year r = 2023) ?U)"
    "[20, 5, 7] = map Rate (filter (\<lambda>r. Indicator r = ''Stunting'')
           (filter (\<lambda>r. n_Year r = 2023) ?N))"
    "?fr = final_ranking ?U ?N 2023"
    by simp_all
  from composite_rank_monotone [OF p]
  have ex: "\<exists>i j ya yb. i < j \<and> j < length ?fr \<and> ?fr ! i = ya \<and> ?fr ! j = yb \<and>
         rk_Region ya = ''Europe'' \<and> rk_Undernourishment_Rate ya = 3 \<and>
         Undernourishment_Rank ya = 3 / 2 \<and> Stunting_Rank ya = 1 \<and>
         rk_Region yb = ''Asia'' \<and> rk_Undernourishment_Rate yb = 10 \<and>
         Undernourishment_Rank yb = 3 \<and> Stunting_Rank yb = 3 \<and>
         Overall_Score ya < Overall_Score yb \<and> sorted (map Overall_Score ?fr)"
    by (elim ex_forward) simp
  from ev ex show ?thesis
    by (simp only: Let_def)
qed

end
